theory Spec2Isabelle
  imports Complex_Main "HOL-Library.Sublist" "HOL-Library.Multiset"
begin

section \<open>Python strings\<close>

text \<open>
  A Python \<open>str\<close> is modelled as a HOL \<open>string\<close>; a character stands for the code
  point of the same number (0 to 255).  The string methods below act on that range as
  Python's do.
\<close>

definition lower_char :: "char \<Rightarrow> char" where
  "lower_char c =
     (let n = (of_char c :: nat)
      in if (65 \<le> n \<and> n \<le> 90) \<or> (192 \<le> n \<and> n \<le> 222 \<and> n \<noteq> 215)
         then char_of (n + 32) else c)"

definition lower :: "string \<Rightarrow> string" where
  "lower s = map lower_char s"

definition isspace :: "char \<Rightarrow> bool" where
  "isspace c = ((of_char c :: nat) \<in> {9, 10, 11, 12, 13, 28, 29, 30, 31, 32, 133, 160})"

definition lstrip :: "string \<Rightarrow> string" where
  "lstrip s = dropWhile isspace s"

definition rstrip :: "string \<Rightarrow> string" where
  "rstrip s = rev (dropWhile isspace (rev s))"

definition strip :: "string \<Rightarrow> string" where
  "strip s = rstrip (lstrip s)"

datatype py_error = IndexError | KeyError | ValueError | ZeroDivisionError | AttributeError
  | ExternalError

text \<open>\<open>sub in s\<close>: the string \<open>sub\<close> occurs in \<open>s\<close> as a contiguous run.\<close>

definition contains :: "string \<Rightarrow> string \<Rightarrow> bool" where
  "contains s sub = sublist sub s"

text \<open>\<open>any(k in s for k in ks)\<close>\<close>

definition any_in :: "string list \<Rightarrow> string \<Rightarrow> bool" where
  "any_in ks s = list_ex (\<lambda>k. contains s k) ks"

definition startswith :: "string \<Rightarrow> string \<Rightarrow> bool" where
  "startswith s p = prefix p s"

text \<open>\<open>s.split()\<close>: the maximal runs of characters that are not whitespace.\<close>

fun split_aux :: "string \<Rightarrow> string \<Rightarrow> string list" where
  "split_aux cur [] = (if cur = [] then [] else [cur])"
| "split_aux cur (c # cs) =
     (if isspace c then (if cur = [] then split_aux [] cs else cur # split_aux [] cs)
      else split_aux (cur @ [c]) cs)"

definition split_ws :: "string \<Rightarrow> string list" where
  "split_ws s = split_aux [] s"


text \<open>\<open>s.endswith(t)\<close>\<close>

definition endswith :: "string \<Rightarrow> string \<Rightarrow> bool" where
  "endswith s t = suffix t s"

text \<open>
  \<open>s.split(sep)\<close> for a separator string: the pieces between the occurrences of
  \<open>sep\<close>, found from left to right without overlap.  Python raises ValueError on an
  empty separator.
\<close>

function split_sep_aux :: "string \<Rightarrow> string \<Rightarrow> string \<Rightarrow> string list" where
  "split_sep_aux sep cur [] = [cur]"
| "split_sep_aux sep cur (c # cs) =
     (if sep \<noteq> [] \<and> prefix sep (c # cs)
      then cur # split_sep_aux sep [] (drop (length sep) (c # cs))
      else split_sep_aux sep (cur @ [c]) cs)"
  by pat_completeness auto
termination
  by (relation "measure (\<lambda>(sep, cur, s). length s)") (auto simp: neq_Nil_conv)

definition split_sep :: "string \<Rightarrow> string \<Rightarrow> py_error + string list" where
  "split_sep s sep = (if sep = [] then Inl ValueError else Inr (split_sep_aux sep [] s))"

text \<open>
  \<open>s.replace(old, new)\<close>: every occurrence of \<open>old\<close>, from left to right without
  overlap, becomes \<open>new\<close>; an empty \<open>old\<close> matches before every character and at the end.
\<close>

function replace_aux :: "string \<Rightarrow> string \<Rightarrow> string \<Rightarrow> string" where
  "replace_aux old new [] = []"
| "replace_aux old new (c # cs) =
     (if old \<noteq> [] \<and> prefix old (c # cs)
      then new @ replace_aux old new (drop (length old) (c # cs))
      else c # replace_aux old new cs)"
  by pat_completeness auto
termination
  by (relation "measure (\<lambda>(old, new, s). length s)") (auto simp: neq_Nil_conv)

definition replace :: "string \<Rightarrow> string \<Rightarrow> string \<Rightarrow> string" where
  "replace s old new =
     (if old = [] then new @ concat (map (\<lambda>c. c # new) s) else replace_aux old new s)"

text \<open>\<open>sep.join(xs)\<close>\<close>

fun join :: "string \<Rightarrow> string list \<Rightarrow> string" where
  "join sep [] = []"
| "join sep [x] = x"
| "join sep (x # y # ys) = x @ sep @ join sep (y # ys)"

text \<open>
  \<open>max(xs, key=f)\<close> over the elements that follow \<open>best\<close>: the first element with the
  largest key; \<open>max\<close> of an empty list raises ValueError.
\<close>

fun max_from :: "('a \<Rightarrow> 'k::linorder) \<Rightarrow> 'a \<Rightarrow> 'a list \<Rightarrow> 'a" where
  "max_from f best [] = best"
| "max_from f best (x # xs) = max_from f (if f best < f x then x else best) xs"

definition py_max :: "('a \<Rightarrow> 'k::linorder) \<Rightarrow> 'a list \<Rightarrow> py_error + 'a" where
  "py_max f xs = (case xs of [] \<Rightarrow> Inl ValueError | x # rest \<Rightarrow> Inr (max_from f x rest))"

section \<open>The random module\<close>

text \<open>
  The generator's state is the sequence of draws still to come: the floats that
  \<open>random.random()\<close> will return and the numbers that \<open>random.choice\<close> will turn
  into an index.  \<open>random.choice\<close> raises IndexError on an empty sequence.
\<close>

record rng =
  floats :: "rat list"
  picks :: "nat list"

definition random_random :: "rng \<Rightarrow> rat \<times> rng" where
  "random_random g = (case floats g of [] \<Rightarrow> (0, g) | x # xs \<Rightarrow> (x, g\<lparr>floats := xs\<rparr>))"

definition random_choice :: "'a list \<Rightarrow> rng \<Rightarrow> (py_error + 'a) \<times> rng" where
  "random_choice xs g =
     (if xs = [] then (Inl IndexError, g)
      else case picks g of
             [] \<Rightarrow> (Inr (xs ! 0), g)
           | n # ns \<Rightarrow> (Inr (xs ! (n mod length xs)), g\<lparr>picks := ns\<rparr>))"

section \<open>personality_system.py\<close>

record personality =
  greeting :: "string list"
  response_style :: string
  traits :: "string list"
  speech_patterns :: "string list"

definition personalities :: "(string \<times> personality) list" where
  "personalities =
   [(''friendly'',
       \<lparr>greeting = [''Hello there! How can I help you today?'', ''Hi! Great to see you!'',
                    ''Hey! What's on your mind?''],
        response_style = ''warm and welcoming'',
        traits = [''helpful'', ''cheerful'', ''supportive''],
        speech_patterns = [''I'd love to help!'', ''That sounds interesting!'',
                           ''Great question!'']\<rparr>),
    (''professional'',
       \<lparr>greeting = [''Good day. How may I assist you?'', ''Hello. What can I help you with?'',
                    ''Greetings. How can I be of service?''],
        response_style = ''formal and efficient'',
        traits = [''precise'', ''knowledgeable'', ''reliable''],
        speech_patterns = [''I can provide information on'', ''According to my analysis'',
                           ''The optimal solution would be'']\<rparr>),
    (''funny'',
       \<lparr>greeting = [''Hey there, human! Ready for some fun?'',
                    ''Hello! I promise not to make too many bad jokes... maybe.'',
                    ''Hi! Warning: Dad jokes may occur.''],
        response_style = ''humorous and playful'',
        traits = [''witty'', ''playful'', ''entertaining''],
        speech_patterns = [''That reminds me of a joke...'', ''Funny you should ask!'',
                           ''Here's a fun fact:'']\<rparr>),
    (''wise'',
       \<lparr>greeting = [''Greetings, seeker of knowledge.'', ''Hello. What wisdom do you seek today?'',
                    ''Welcome. I sense you have questions.''],
        response_style = ''thoughtful and philosophical'',
        traits = [''contemplative'', ''insightful'', ''patient''],
        speech_patterns = [''Consider this perspective:'', ''In my experience,'',
                           ''Wisdom suggests that'']\<rparr>),
    (''energetic'',
       \<lparr>greeting = [''HEY THERE! Ready to tackle the day?'', ''Hello! I'm super excited to help!'',
                    ''Hi! Let's make something awesome happen!''],
        response_style = ''enthusiastic and motivating'',
        traits = [''energetic'', ''motivational'', ''optimistic''],
        speech_patterns = [''That's AMAZING!'', ''Let's do this!'', ''You've got this!'']\<rparr>)]"

text \<open>The object's only mutable field.\<close>

record personality_system =
  current_personality :: string

definition personality_init :: personality_system where
  "personality_init = \<lparr>current_personality = ''friendly''\<rparr>"

definition set_personality :: "string \<Rightarrow> personality_system \<Rightarrow> bool \<times> personality_system" where
  "set_personality personality_name ps =
     (if lower personality_name \<in> set (map fst personalities)
      then (True, ps\<lparr>current_personality := lower personality_name\<rparr>)
      else (False, ps))"

text \<open>\<open>self.personalities[self.current_personality]\<close>, a KeyError on a missing key.\<close>

definition lookup_personality :: "personality_system \<Rightarrow> py_error + personality" where
  "lookup_personality ps =
     (case map_of personalities (current_personality ps) of
        None \<Rightarrow> Inl KeyError
      | Some p \<Rightarrow> Inr p)"

record personality_info =
  info_name :: string
  info_style :: string
  info_traits :: "string list"

definition get_current_personality_info :: "personality_system \<Rightarrow> py_error + personality_info" where
  "get_current_personality_info ps =
     (case lookup_personality ps of
        Inl e \<Rightarrow> Inl e
      | Inr p \<Rightarrow> Inr \<lparr>info_name = current_personality ps, info_style = response_style p,
                      info_traits = traits p\<rparr>)"

definition add_humor :: "string \<Rightarrow> rng \<Rightarrow> (py_error + string) \<times> rng" where
  "add_humor response g =
     (let jokes = ['' (No pun intended... okay, maybe a little intended!)'',
                   '' Speaking of which, why don't scientists trust atoms? Because they make up everything!'',
                   '' That's what I call a 'byte' of information! Get it? Byte? I'll see myself out...''];
          (r, g1) = random_random g
      in case (if r < 2 / 10
               then (case random_choice jokes g1 of
                       (Inl e, g2) \<Rightarrow> (Inl e, g2)
                     | (Inr joke, g2) \<Rightarrow> (Inr (response @ joke), g2))
               else (Inr response, g1)) of
           (Inl e, g2) \<Rightarrow> (Inl e, g2)
         | (Inr response1, g2) \<Rightarrow>
             (Inr (replace (replace response1 ''I think'' ''I reckon'') ''However'' ''But hey''), g2))"

definition make_professional :: "string \<Rightarrow> rng \<Rightarrow> (py_error + string) \<times> rng" where
  "make_professional response g =
     (let response1 = replace response ''I think'' ''I believe'';
          response2 = replace response1 ''pretty good'' ''quite effective'';
          response3 = replace response2 ''really'' ''particularly'';
          professional_starters = [''Based on available information, '',
                                   ''According to current data, '',
                                   ''From a professional standpoint, ''];
          (r, g1) = random_random g
      in if r < 3 / 10
         then (case random_choice professional_starters g1 of
                 (Inl e, g2) \<Rightarrow> (Inl e, g2)
               | (Inr starter, g2) \<Rightarrow> (Inr (starter @ lower response3), g2))
         else (Inr response3, g1))"

definition add_energy :: "string \<Rightarrow> rng \<Rightarrow> (py_error + string) \<times> rng" where
  "add_energy response g =
     (let response1 = (if \<not> (endswith response ''!'' \<or> endswith response ''?''
                              \<or> endswith response ''.'')
                       then response @ ''!'' else response);
          response2 = replace response1 ''good'' ''AWESOME'';
          response3 = replace response2 ''yes'' ''ABSOLUTELY YES'';
          response4 = replace response3 ''I can'' ''I'd LOVE to'';
          energetic_additions = ['' Let's make it happen!'', '' This is going to be great!'',
                                 '' I'm excited to help with this!''];
          (r, g1) = random_random g
      in if r < 4 / 10
         then (case random_choice energetic_additions g1 of
                 (Inl e, g2) \<Rightarrow> (Inl e, g2)
               | (Inr addition, g2) \<Rightarrow> (Inr (response4 @ addition), g2))
         else (Inr response4, g1))"

definition add_wisdom :: "string \<Rightarrow> rng \<Rightarrow> (py_error + string) \<times> rng" where
  "add_wisdom response g =
     (let wise_starters = [''In my contemplation, '', ''Through careful consideration, '',
                           ''Reflecting on this matter, ''];
          wise_endings = ['' Such is the nature of knowledge.'',
                          '' This requires thoughtful consideration.'',
                          '' Wisdom comes through understanding.''];
          (r, g1) = random_random g
      in case (if r < 3 / 10
               then (case random_choice wise_starters g1 of
                       (Inl e, g2) \<Rightarrow> (Inl e, g2)
                     | (Inr starter, g2) \<Rightarrow> (Inr (starter @ lower response), g2))
               else (Inr response, g1)) of
           (Inl e, g2) \<Rightarrow> (Inl e, g2)
         | (Inr response1, g2) \<Rightarrow>
             (let (r2, g3) = random_random g2
              in if r2 < 2 / 10
                 then (case random_choice wise_endings g3 of
                         (Inl e, g4) \<Rightarrow> (Inl e, g4)
                       | (Inr ending, g4) \<Rightarrow> (Inr (response1 @ ending), g4))
                 else (Inr response1, g3)))"

definition apply_personality_to_response ::
  "personality_system \<Rightarrow> string \<Rightarrow> rng \<Rightarrow> (py_error + string) \<times> rng" where
  "apply_personality_to_response ps response g =
     (case lookup_personality ps of
        Inl e \<Rightarrow> (Inl e, g)
      | Inr p \<Rightarrow>
          (let (r, g1) = random_random g
           in case (if r < 3 / 10
                    then (case random_choice (speech_patterns p) g1 of
                            (Inl e, g2) \<Rightarrow> (Inl e, g2)
                          | (Inr pattern, g2) \<Rightarrow> (Inr (pattern @ '' '' @ response), g2))
                    else (Inr response, g1)) of
                (Inl e, g2) \<Rightarrow> (Inl e, g2)
              | (Inr response1, g2) \<Rightarrow>
                  (if current_personality ps = ''funny'' then add_humor response1 g2
                   else if current_personality ps = ''professional''
                        then make_professional response1 g2
                   else if current_personality ps = ''energetic'' then add_energy response1 g2
                   else if current_personality ps = ''wise'' then add_wisdom response1 g2
                   else (Inr response1, g2))))"

text \<open>A sequence of \<open>set_personality\<close> calls, whatever each of them returns.\<close>

fun set_personalities :: "string list \<Rightarrow> personality_system \<Rightarrow> personality_system" where
  "set_personalities [] ps = ps"
| "set_personalities (name # names) ps = set_personalities names (snd (set_personality name ps))"

section \<open>emotion_detector.py\<close>

text \<open>The keyword table, in the order in which the dictionary is written.\<close>

definition emotion_keywords :: "(string \<times> string list) list" where
  "emotion_keywords =
   [(''happy'', [''happy'', ''joy'', ''excited'', ''great'', ''awesome'', ''wonderful'',
                 ''amazing'', ''fantastic'', ''good'', ''smile'', ''laugh'']),
    (''sad'', [''sad'', ''depressed'', ''down'', ''upset'', ''cry'', ''terrible'', ''awful'',
               ''bad'', ''disappointed'', ''hurt'']),
    (''angry'', [''angry'', ''mad'', ''furious'', ''annoyed'', ''frustrated'', ''hate'',
                 ''stupid'', ''idiot'', ''damn'']),
    (''anxious'', [''worried'', ''nervous'', ''scared'', ''afraid'', ''anxious'', ''stress'',
                   ''panic'', ''fear'']),
    (''confused'', [''confused'', ''lost'', ''dont understand'', ''don't get'', ''unclear'',
                    ''what'', ''how'', ''why'']),
    (''tired'', [''tired'', ''exhausted'', ''sleepy'', ''fatigue'', ''worn out'', ''drained'']),
    (''excited'', [''excited'', ''thrilled'', ''pumped'', ''eager'', ''cant wait'',
                   ''can't wait''])]"

text \<open>\<open>sum(1 for keyword in keywords if keyword in text_lower)\<close>\<close>

definition keyword_score :: "string list \<Rightarrow> string \<Rightarrow> nat" where
  "keyword_score keywords text_lower = length (filter (\<lambda>keyword. contains text_lower keyword) keywords)"

text \<open>
  The dictionary \<open>emotion_scores\<close>: the categories with a positive score, in the order
  in which the loop inserts them.
\<close>

definition emotion_scores :: "string \<Rightarrow> (string \<times> nat) list" where
  "emotion_scores text_lower =
     filter (\<lambda>(emotion, score). score > 0)
       (map (\<lambda>(emotion, keywords). (emotion, keyword_score keywords text_lower)) emotion_keywords)"

text \<open>
  The confidence is a Python float; the model computes it in exact rational arithmetic.
  Dividing by a word count of zero raises ZeroDivisionError.
\<close>

definition detect_emotion :: "string \<Rightarrow> py_error + (string \<times> rat)" where
  "detect_emotion text =
     (let text_lower = lower text
      in case emotion_scores text_lower of
           [] \<Rightarrow> Inr (''neutral'', 1 / 2)
         | x # xs \<Rightarrow>
             (let (primary_emotion, score) = max_from snd x xs;
                  word_count = length (split_ws text)
              in if word_count = 0 then Inl ZeroDivisionError
                 else Inr (primary_emotion,
                           min (rat_of_nat score / rat_of_nat word_count * 10) 1)))"

definition empathetic_responses :: "(string \<times> string list) list" where
  "empathetic_responses =
   [(''happy'', [''That's wonderful to hear! I'm glad you're feeling good.'',
                 ''Your happiness is contagious! What's making you so happy?'',
                 ''I love your positive energy! Keep that smile going.'']),
    (''sad'', [''I'm sorry you're feeling down. I'm here to listen if you want to talk.'',
               ''It sounds like you're going through a tough time. How can I help?'',
               ''I understand you're feeling sad. Sometimes talking helps.'']),
    (''angry'', [''I can sense you're frustrated. Let's work through this together.'',
                 ''It sounds like something really bothered you. Want to tell me about it?'',
                 ''I hear your frustration. Let me try to help you with this.'']),
    (''anxious'', [''I can tell you're feeling worried. Let's take this step by step.'',
                   ''It's okay to feel anxious. I'm here to help you through this.'',
                   ''Take a deep breath. We can figure this out together.'']),
    (''confused'', [''I can see this is confusing. Let me try to explain it more clearly.'',
                    ''No worries about being confused. Let's break this down together.'',
                    ''I understand this might be unclear. Let me help clarify.'']),
    (''tired'', [''You sound exhausted. Make sure you're getting enough rest.'',
                 ''It seems like you need a break. Take care of yourself.'',
                 ''Being tired can make everything harder. How can I help?'']),
    (''excited'', [''I can feel your excitement! That's amazing!'',
                   ''Your enthusiasm is wonderful! Tell me more!'',
                   ''I love your energy! What's got you so excited?''])]"

definition get_empathetic_response :: "string \<Rightarrow> rat \<Rightarrow> rng \<Rightarrow> (py_error + string) \<times> rng" where
  "get_empathetic_response emotion confidence g =
     (case map_of empathetic_responses emotion of
        Some rs \<Rightarrow> random_choice rs g
      | None \<Rightarrow> (Inr ''I'm here to help you with whatever you need.'', g))"

section \<open>context_memory.py\<close>

definition calculate_importance :: "string \<Rightarrow> int" where
  "calculate_importance user_input =
     (let importance = 0;
          text = lower user_input;
          importance = (if any_in [''my name'', ''i am'', ''i live'', ''my age'', ''my job''] text
                        then importance + 5 else importance);
          importance = (if contains text ''?'' then importance + 2 else importance);
          importance = (if any_in [''love'', ''hate'', ''sad'', ''happy'', ''angry'', ''excited''] text
                        then importance + 3 else importance);
          importance = (if any_in [''help'', ''please'', ''can you'', ''need''] text
                        then importance + 2 else importance);
          importance = (if length (split_ws text) > 10 then importance + 1 else importance)
      in importance)"

text \<open>
  A stored conversation.  An entry read back from the memory file may lack the
  \<open>importance\<close> key, which the sort reads with \<open>x.get("importance", 0)\<close>.
\<close>

record memory_item =
  m_user_input :: string
  m_ai_response :: string
  m_timestamp :: string
  importance :: "int option"

definition importance_key :: "memory_item \<Rightarrow> int" where
  "importance_key x = (case importance x of Some i \<Rightarrow> i | None \<Rightarrow> 0)"

text \<open>The dictionary \<open>user_info\<close>: each key is present or absent.\<close>

record user_info =
  ui_name :: "string option"
  ui_location :: "string option"
  ui_age :: "int option"
  ui_interests :: "string list option"

record long_term_memory =
  conversations :: "memory_item list"
  user_info :: user_info
  topics :: "(string \<times> nat) list"

text \<open>The structure that \<open>load_memory\<close> sets up when there is no memory file.\<close>

definition empty_long_term_memory :: long_term_memory where
  "empty_long_term_memory =
     \<lparr>conversations = [],
      user_info = \<lparr>ui_name = None, ui_location = None, ui_age = None, ui_interests = None\<rparr>,
      topics = []\<rparr>"

text \<open>\<open>word.isdigit()\<close> on code points below 256: the ASCII digits and the superscripts.\<close>

definition isdigit_char :: "char \<Rightarrow> bool" where
  "isdigit_char c = (let n = (of_char c :: nat) in (48 \<le> n \<and> n \<le> 57) \<or> n \<in> {178, 179, 185})"

definition isdigit :: "string \<Rightarrow> bool" where
  "isdigit w = (w \<noteq> [] \<and> list_all isdigit_char w)"

text \<open>\<open>int(word)\<close> for a word of digits: a superscript digit raises ValueError.\<close>

definition int_of_digits :: "string \<Rightarrow> py_error + int" where
  "int_of_digits w =
     (if list_all (\<lambda>c. 48 \<le> (of_char c :: nat) \<and> (of_char c :: nat) \<le> 57) w
      then Inr (foldl (\<lambda>acc c. acc * 10 + (int (of_char c) - 48)) 0 w)
      else Inl ValueError)"

text \<open>\<open>xs[-1]\<close> of a list that \<open>split\<close> returned, which is never empty.\<close>

definition last_piece :: "string \<Rightarrow> string \<Rightarrow> string" where
  "last_piece s sep = last (split_sep_aux sep [] s)"

definition extract_user_info :: "string \<Rightarrow> user_info \<Rightarrow> py_error + user_info" where
  "extract_user_info inp ui =
     (let text = lower inp
      in case (if contains text ''my name is''
               then (case split_ws (strip (last_piece text ''my name is'')) of
                       [] \<Rightarrow> Inl IndexError
                     | name # _ \<Rightarrow> Inr (ui\<lparr>ui_name := Some name\<rparr>))
               else Inr ui) of
           Inl e \<Rightarrow> Inl e
         | Inr ui1 \<Rightarrow>
             (let ui2 = (if contains text ''i live in'' \<or> contains text ''i am from''
                         then ui1\<lparr>ui_location :=
                                Some (strip (last_piece text
                                        (if contains text ''in'' then ''in'' else ''from'')))\<rparr>
                         else ui1);
                  ui3 = (if contains text ''i am'' \<and> contains text ''years old''
                         then (case filter isdigit (split_ws text) of
                                 [] \<Rightarrow> ui2
                               | word # _ \<Rightarrow>
                                   (case int_of_digits word of
                                      Inl e \<Rightarrow> ui2
                                    | Inr age \<Rightarrow> ui2\<lparr>ui_age := Some age\<rparr>))
                         else ui2);
                  ui4 = (if contains text ''i like'' \<or> contains text ''i love''
                         then (let interest = strip (last_piece text
                                        (if contains text ''like'' then ''like'' else ''love''))
                               in ui3\<lparr>ui_interests :=
                                        Some ((case ui_interests ui3 of None \<Rightarrow> [] | Some is \<Rightarrow> is)
                                              @ [interest])\<rparr>)
                         else ui3)
              in Inr ui4))"

definition topic_keywords :: "(string \<times> string list) list" where
  "topic_keywords =
   [(''technology'', [''computer'', ''software'', ''ai'', ''robot'', ''internet'', ''phone'']),
    (''science'', [''physics'', ''chemistry'', ''biology'', ''space'', ''research'']),
    (''entertainment'', [''movie'', ''music'', ''game'', ''book'', ''tv'', ''show'']),
    (''food'', [''eat'', ''food'', ''cook'', ''recipe'', ''restaurant'', ''meal'']),
    (''travel'', [''travel'', ''trip'', ''vacation'', ''country'', ''city'', ''visit'']),
    (''work'', [''job'', ''work'', ''career'', ''office'', ''business'', ''company'']),
    (''health'', [''health'', ''exercise'', ''doctor'', ''medicine'', ''fitness'']),
    (''education'', [''school'', ''study'', ''learn'', ''university'', ''course''])]"

text \<open>\<open>d[k] = v\<close> on a dictionary kept as the list of its items in insertion order.\<close>

fun dict_set :: "('k \<times> 'v) list \<Rightarrow> 'k \<Rightarrow> 'v \<Rightarrow> ('k \<times> 'v) list" where
  "dict_set [] k v = [(k, v)]"
| "dict_set ((k', v') # d) k v = (if k' = k then (k, v) # d else (k', v') # dict_set d k v)"

definition extract_topics :: "string \<Rightarrow> (string \<times> nat) list \<Rightarrow> (string \<times> nat) list" where
  "extract_topics inp tps =
     (let text = lower inp
      in foldl (\<lambda>d (topic, keywords).
                  if any_in keywords text
                  then dict_set d topic ((case map_of d topic of None \<Rightarrow> 0 | Some n \<Rightarrow> n) + 1)
                  else d)
           tps topic_keywords)"

text \<open>
  \<open>sorted(xs, key=lambda x: x.get("importance", 0), reverse=True)\<close>: descending by
  importance, entries of equal importance in the order they had in \<open>xs\<close>.
\<close>

definition sorted_by_importance :: "memory_item list \<Rightarrow> memory_item list" where
  "sorted_by_importance xs = sort_key (\<lambda>x. - importance_key x) xs"

text \<open>
  \<open>add_to_long_term_memory\<close>, with the time stamp that \<open>datetime.now()\<close> gives.  The
  object is mutated in place, so the state reached when an exception leaves the method is
  returned together with the exception.  Writing the memory file does not change the
  object and its failure is caught; it is left out.
\<close>

definition add_to_long_term_memory ::
  "string \<Rightarrow> string \<Rightarrow> string \<Rightarrow> long_term_memory \<Rightarrow> py_error option \<times> long_term_memory" where
  "add_to_long_term_memory inp resp now m =
     (let memory_item = \<lparr>m_user_input = inp, m_ai_response = resp, m_timestamp = now,
                         importance = Some (calculate_importance inp)\<rparr>;
          m1 = m\<lparr>conversations := conversations m @ [memory_item]\<rparr>
      in case extract_user_info inp (user_info m1) of
           Inl e \<Rightarrow> (Some e, m1)
         | Inr ui \<Rightarrow>
             (let m2 = m1\<lparr>user_info := ui\<rparr>;
                  m3 = m2\<lparr>topics := extract_topics inp (topics m2)\<rparr>;
                  m4 = (if length (conversations m3) > 100
                        then m3\<lparr>conversations := take 100 (sorted_by_importance (conversations m3))\<rparr>
                        else m3)
              in (None, m4)))"

text \<open>A sequence of inserts; an insert that raises leaves the object as it was at the raise.\<close>

fun add_all :: "(string \<times> string \<times> string) list \<Rightarrow> long_term_memory \<Rightarrow> long_term_memory" where
  "add_all [] m = m"
| "add_all ((inp, resp, now) # rest) m = add_all rest (snd (add_to_long_term_memory inp resp now m))"

record session_item =
  s_user_input :: string
  s_ai_response :: string
  s_timestamp :: string
  s_session_id :: string

text \<open>The object \<open>ContextMemory\<close>: the session list and the long-term dictionary.\<close>

record context_memory =
  session_memory :: "session_item list"
  long_term :: long_term_memory

definition add_to_session_memory ::
  "string \<Rightarrow> string \<Rightarrow> string \<Rightarrow> string \<Rightarrow> context_memory \<Rightarrow> context_memory" where
  "add_to_session_memory inp resp now sid cm =
     (let memory_item = \<lparr>s_user_input = inp, s_ai_response = resp, s_timestamp = now,
                         s_session_id = sid\<rparr>;
          sm = session_memory cm @ [memory_item]
      in cm\<lparr>session_memory := (if length sm > 20 then drop (length sm - 20) sm else sm)\<rparr>)"

definition get_relevant_context :: "context_memory \<Rightarrow> string \<Rightarrow> string" where
  "get_relevant_context cm current_input =
     (let sm = session_memory cm;
          context = (if sm \<noteq> []
                     then ''Recent conversation:'' #
                          concat (map (\<lambda>memory. [''You: '' @ s_user_input memory,
                                                 ''AI: '' @ s_ai_response memory])
                                      (drop (length sm - 3) sm))
                     else []);
          ui = user_info (long_term cm);
          context = (if ui_name ui \<noteq> None \<or> ui_location ui \<noteq> None \<or> ui_age ui \<noteq> None
                        \<or> ui_interests ui \<noteq> None
                     then (let info = (case ui_name ui of None \<Rightarrow> []
                                       | Some name \<Rightarrow> [''User's name: '' @ name])
                                    @ (case ui_location ui of None \<Rightarrow> []
                                       | Some location \<Rightarrow> [''Location: '' @ location])
                           in if info \<noteq> []
                              then context @ [''User information: '' @ join '', '' info]
                              else context)
                     else context)
      in if context \<noteq> [] then join [CHR 0x0A] context else [])"

section \<open>learning_system.py\<close>

record learned_entry =
  le_response :: string
  le_success_count :: "int option"
  le_timestamp :: string

record pattern_item =
  p_input :: string
  p_response :: string
  p_timestamp :: string

record preferences =
  favorite_color :: "string option"
  favorite_food :: "string option"
  pref_name :: "string option"
  pref_location :: "string option"

record learning_system =
  learned_knowledge :: "(string \<times> learned_entry list) list"
  preferences :: preferences
  patterns :: "(string \<times> pattern_item list) list"

definition classify_input_type :: "string \<Rightarrow> string" where
  "classify_input_type inp =
     (let text = lower inp
      in if any_in [''hello'', ''hi'', ''hey'', ''good morning''] text then ''greeting''
         else if contains text ''?'' then ''question''
         else if any_in [''thanks'', ''thank you'', ''bye'', ''goodbye''] text then ''closing''
         else if any_in [''help'', ''can you'', ''please''] text then ''request''
         else ''general'')"

text \<open>
  \<open>for x in xs: if x in text: d[key] = x\<close>: the last listed word that occurs in the
  text is the one that stays.
\<close>

definition last_match :: "string list \<Rightarrow> string \<Rightarrow> string option \<Rightarrow> string option" where
  "last_match xs text old = foldl (\<lambda>cur x. if contains text x then Some x else cur) old xs"

definition extract_preferences :: "string \<Rightarrow> preferences \<Rightarrow> py_error option \<times> preferences" where
  "extract_preferences inp pr =
     (let text = lower inp;
          pr1 = (if contains text ''my favorite'' \<or> contains text ''i like'' \<or> contains text ''i love''
                 then (let pa = (if contains text ''color''
                                 then pr\<lparr>favorite_color :=
                                        last_match [''red'', ''blue'', ''green'', ''yellow'', ''purple'',
                                                    ''orange'', ''black'', ''white''] text
                                          (favorite_color pr)\<rparr>
                                 else pr)
                       in if contains text ''food''
                          then pa\<lparr>favorite_food :=
                                 last_match [''pizza'', ''burger'', ''pasta'', ''rice'', ''chicken'',
                                             ''fish'', ''salad''] text (favorite_food pa)\<rparr>
                          else pa)
                 else pr)
      in case (if contains text ''my name is''
               then (case split_ws (strip (last_piece text ''my name is'')) of
                       [] \<Rightarrow> (Some IndexError, pr1)
                     | name # _ \<Rightarrow> (None, pr1\<lparr>pref_name := Some name\<rparr>))
               else (None, pr1)) of
           (Some e, pr2) \<Rightarrow> (Some e, pr2)
         | (None, pr2) \<Rightarrow>
             (None, if contains text ''i am from'' \<or> contains text ''i live in''
                    then pr2\<lparr>pref_location :=
                           Some (strip (last_piece text
                                   (if contains text ''from'' then ''from'' else ''in'')))\<rparr>
                    else pr2))"

definition analyze_conversation_pattern ::
  "string \<Rightarrow> string \<Rightarrow> string \<Rightarrow> (string \<times> pattern_item list) list
     \<Rightarrow> (string \<times> pattern_item list) list" where
  "analyze_conversation_pattern inp resp now pats =
     (let input_type = classify_input_type inp;
          old = (case map_of pats input_type of None \<Rightarrow> [] | Some xs \<Rightarrow> xs);
          new = old @ [\<lparr>p_input = inp, p_response = resp, p_timestamp = now\<rparr>]
      in dict_set pats input_type (if length new > 10 then drop (length new - 10) new else new))"

definition store_successful_response ::
  "string \<Rightarrow> string \<Rightarrow> string \<Rightarrow> (string \<times> learned_entry list) list
     \<Rightarrow> (string \<times> learned_entry list) list" where
  "store_successful_response inp resp now lk =
     (let key = take 50 (lower inp);
          old = (case map_of lk key of None \<Rightarrow> [] | Some xs \<Rightarrow> xs)
      in dict_set lk key
           (old @ [\<lparr>le_response = resp, le_success_count = Some 1, le_timestamp = now\<rparr>]))"

text \<open>
  \<open>learn_from_conversation\<close>.  An exception leaves the method at the point where it is
  raised, with the changes made so far.  Writing the files does not change the object.
\<close>

definition learn_from_conversation ::
  "string \<Rightarrow> string \<Rightarrow> string option \<Rightarrow> string \<Rightarrow> learning_system
     \<Rightarrow> py_error option \<times> learning_system" where
  "learn_from_conversation inp resp user_feedback now ls =
     (case extract_preferences inp (preferences ls) of
        (Some e, pr) \<Rightarrow> (Some e, ls\<lparr>preferences := pr\<rparr>)
      | (None, pr) \<Rightarrow>
          (let ls1 = ls\<lparr>preferences := pr\<rparr>;
               ls2 = ls1\<lparr>patterns := analyze_conversation_pattern inp resp now (patterns ls1)\<rparr>;
               ls3 = (if user_feedback = Some ''good''
                         \<or> any_in [''thanks'', ''good'', ''great'', ''perfect''] (lower inp)
                      then ls2\<lparr>learned_knowledge :=
                                 store_successful_response inp resp now (learned_knowledge ls2)\<rparr>
                      else ls2)
           in (None, ls3)))"

definition get_contextual_response :: "learning_system \<Rightarrow> string \<Rightarrow> string" where
  "get_contextual_response ls inp =
     (let input_type = classify_input_type inp
      in case map_of (patterns ls) input_type of
           Some (p # ps) \<Rightarrow>
             ''Based on our previous conversations, '' @ p_response (last (p # ps))
         | _ \<Rightarrow> ''Let me help you with that.'')"

definition get_personalized_response :: "learning_system \<Rightarrow> string \<Rightarrow> py_error + string option" where
  "get_personalized_response ls inp =
     (let key = take 50 (lower inp)
      in case map_of (learned_knowledge ls) key of
           Some entries \<Rightarrow>
             (case py_max (\<lambda>x. case le_success_count x of None \<Rightarrow> 0 | Some n \<Rightarrow> n) entries of
                Inl e \<Rightarrow> Inl e
              | Inr best_response \<Rightarrow> Inr (Some (le_response best_response)))
         | None \<Rightarrow>
             (case pref_name (preferences ls) of
                Some (c # name) \<Rightarrow>
                  Inr (Some (''Hi '' @ (c # name) @ ''! '' @ get_contextual_response ls inp))
              | _ \<Rightarrow> Inr None))"

section \<open>common_sense.py\<close>

record common_sense =
  cs_context_memory :: "(string \<times> string) list"

definition get_realistic_alternative :: "string \<Rightarrow> string" where
  "get_realistic_alternative query =
     (let query_lower = lower query
      in if contains query_lower ''fly'' \<and> contains query_lower ''human''
         then ''Humans can't fly naturally, but we can use airplanes, helicopters, or other aircraft to travel through the air.''
         else if contains query_lower ''breathe underwater''
         then ''Humans can't breathe underwater naturally, but we can use scuba gear or submarines to explore underwater.''
         else ''Let me provide a more realistic perspective on that.'')"

definition check_logical_consistency :: "string \<Rightarrow> string \<Rightarrow> string" where
  "check_logical_consistency query response =
     (let query_lower = lower query;
          response_lower = lower response
      in if contains query_lower ''yesterday'' \<and> contains response_lower ''tomorrow''
         then ''I think there might be some confusion about time. Let me clarify: '' @ response
         else if (contains response_lower ''water'' \<and> contains response_lower ''burn'')
                 \<or> (contains response_lower ''ice'' \<and> contains response_lower ''hot'')
                 \<or> (contains response_lower ''fly'' \<and> contains query_lower ''human''
                     \<and> \<not> contains response_lower ''without'')
         then ''That doesn't seem physically possible. Let me give you a more realistic answer: ''
              @ get_realistic_alternative query
         else response)"

definition add_practical_context :: "string \<Rightarrow> string \<Rightarrow> string" where
  "add_practical_context query response =
     (let query_lower = lower query;
          response = (if any_in [''rain'', ''cold'', ''hot'', ''snow''] query_lower
                      then (if contains query_lower ''rain''
                            then response @ '' By the way, if it's raining, don't forget an umbrella!''
                            else if contains query_lower ''cold''
                            then response @ '' In cold weather, make sure to dress warmly.''
                            else if contains query_lower ''hot''
                            then response @ '' In hot weather, stay hydrated and seek shade.''
                            else response)
                      else response);
          response = (if any_in [''drive'', ''driving'', ''car''] query_lower
                      then response @ '' Remember to always drive safely and follow traffic rules.''
                      else response);
          response = (if any_in [''sick'', ''illness'', ''pain'', ''hurt''] query_lower
                      then response @ '' If you're experiencing health issues, it's best to consult with a healthcare professional.''
                      else response);
          response = (if any_in [''busy'', ''time'', ''schedule''] query_lower
                      then response @ '' Good time management can help reduce stress and improve productivity.''
                      else response)
      in response)"

definition apply_safety_filter :: "string \<Rightarrow> string" where
  "apply_safety_filter response =
     (if any_in [''dangerous'', ''illegal'', ''harmful'', ''unsafe''] (lower response)
      then ''I want to make sure I give you safe and helpful advice. '' @ response
           @ '' Please prioritize your safety and follow local laws and guidelines.''
      else response)"

definition apply_common_sense :: "string \<Rightarrow> string \<Rightarrow> string" where
  "apply_common_sense query ai_response =
     apply_safety_filter (add_practical_context query (check_logical_consistency query ai_response))"

text \<open>The hour and the month are those of \<open>datetime.now()\<close>.\<close>

definition add_contextual_awareness :: "nat \<Rightarrow> nat \<Rightarrow> string \<Rightarrow> string \<Rightarrow> string" where
  "add_contextual_awareness current_hour current_month query response =
     (let response = (if contains (lower query) ''good morning'' \<and> current_hour > 12
                      then ''Actually, it's afternoon now, but good day to you too! '' @ response
                      else if contains (lower query) ''good evening'' \<and> current_hour < 17
                      then ''It's still daytime, but good day! '' @ response
                      else response)
      in if current_month \<in> {12, 1, 2} \<and> contains (lower query) ''summer''
         then ''Just to note, it's currently winter season. '' @ response
         else if current_month \<in> {6, 7, 8} \<and> contains (lower query) ''winter''
         then ''Just to note, it's currently summer season. '' @ response
         else response)"

definition check_contradictions :: "string \<Rightarrow> string \<Rightarrow> common_sense \<Rightarrow> string \<times> common_sense" where
  "check_contradictions now new_response cs =
     (let cm = cs_context_memory cs @ [(new_response, now)]
      in (new_response,
          cs\<lparr>cs_context_memory := (if length cm > 5 then drop (length cm - 5) cm else cm)\<rparr>))"

definition enhance_with_common_sense ::
  "nat \<Rightarrow> nat \<Rightarrow> string \<Rightarrow> string \<Rightarrow> string \<Rightarrow> common_sense \<Rightarrow> string \<times> common_sense" where
  "enhance_with_common_sense current_hour current_month now query ai_response cs =
     (let enhanced = apply_common_sense query ai_response;
          enhanced = add_contextual_awareness current_hour current_month query enhanced
      in check_contradictions now enhanced cs)"

section \<open>terminal_ai_fixed.py\<close>

subsection \<open>The classifiers and the prompt builders\<close>

definition immediate_skip :: "string list" where
  "immediate_skip =
   [''hello'', ''hi'', ''hey'', ''thanks'', ''thank you'', ''bye'', ''goodbye'',
    ''how are you'', ''what can you do'', ''who are you'', ''good morning'',
    ''good evening'', ''nice'', ''great'', ''okay'', ''yes'', ''no'', ''sure'',
    ''alright'', ''fine'', ''cool'', ''awesome'', ''perfect'']"

definition command_patterns :: "string list" where
  "command_patterns =
   [''personality'', ''memory stats'', ''voice test'', ''breaking news'',
    ''news'', ''search live'', ''ask me a question'', ''quiz me'']"

definition priority_triggers :: "string list" where
  "priority_triggers =
   [''current'', ''latest'', ''recent'', ''today'', ''now'', ''2024'', ''2025'',
    ''breaking'', ''live'', ''real-time'', ''up-to-date'']"

definition info_requests :: "string list" where
  "info_requests =
   [''price of'', ''cost of'', ''statistics'', ''population'', ''rate'',
    ''weather in'', ''temperature'', ''forecast'', ''news about'',
    ''best colleges'', ''best hospitals'', ''best restaurants'',
    ''deaths in'', ''mortality'', ''crime rate'', ''happened in'']"

definition location_indicators :: "string list" where
  "location_indicators = [''near me'', ''in my area'', ''pincode'', ''pin code'']"

definition basic_knowledge :: "string list" where
  "basic_knowledge =
   [''what is love'', ''what is life'', ''what is happiness'',
    ''what is water'', ''what is fire'', ''what is human'',
    ''bones in human'', ''human bones'']"

definition needs_search :: "string \<Rightarrow> bool" where
  "needs_search query =
     (let query_lower = strip (lower query)
      in if any_in immediate_skip query_lower then False
         else if any_in command_patterns query_lower then False
         else if any_in priority_triggers query_lower then True
         else if any_in info_requests query_lower then True
         else if any_in location_indicators query_lower then True
         else if any_in basic_knowledge query_lower then False
         else contains query ''?''
              \<or> list_ex (startswith query_lower)
                    [''what'', ''how'', ''when'', ''where'', ''why'', ''who''])"

definition fallback_responses :: "(string \<times> string) list" where
  "fallback_responses =
   [(''hello'', ''Hello! How can I help you today?''),
    (''hi'', ''Hi there! What can I do for you?''),
    (''how are you'', ''I'm doing well, thank you! How are you?''),
    (''thanks'', ''You're welcome! Happy to help!''),
    (''bye'', ''Goodbye! Have a great day!'')]"

definition get_fallback_response :: "string \<Rightarrow> string" where
  "get_fallback_response prompt =
     (let prompt_lower = strip (lower prompt)
      in case filter (\<lambda>(key, response). contains prompt_lower key) fallback_responses of
           (key, response) # _ \<Rightarrow> response
         | [] \<Rightarrow> ''I'm having trouble processing that right now. Could you please try again or rephrase your question?'')"

definition clean_search_query :: "string \<Rightarrow> string" where
  "clean_search_query query =
     (let query = (if contains query ''Current question:''
                   then strip (last_piece query ''Current question:'') else query);
          query = (if contains query ''Conversation context:''
                   then strip (hd (split_sep_aux ''Conversation context:'' [] query)) else query);
          words = split_ws query;
          query = (if length words > 10 then join '' '' (take 10 words) else query)
      in strip query)"

definition prepare_full_prompt :: "string \<Rightarrow> string \<Rightarrow> string" where
  "prepare_full_prompt prompt context =
     (if context \<noteq> [] \<and> length (strip context) > 0
      then (let context = (if length context > 1000 then take 1000 context @ ''...'' else context)
            in ''Based on this information: '' @ context @ [CHR 0x0A, CHR 0x0A]
               @ ''Question: '' @ prompt @ [CHR 0x0A, CHR 0x0A]
               @ ''Provide a helpful response in 2-3 sentences.'')
      else prompt)"

text \<open>
  The regular expression \<open>\b\d{6}\b\<close>: \<open>\d\<close> is an ASCII digit on this range of code
  points, \<open>\w\<close> a character that is alphanumeric or the underscore.  The search returns
  the leftmost run of six digits that has no word character on either side.
\<close>

definition is_decimal :: "char \<Rightarrow> bool" where
  "is_decimal c = (48 \<le> (of_char c :: nat) \<and> (of_char c :: nat) \<le> 57)"

definition is_word_char :: "char \<Rightarrow> bool" where
  "is_word_char c =
     (let n = (of_char c :: nat)
      in (48 \<le> n \<and> n \<le> 57) \<or> (65 \<le> n \<and> n \<le> 90) \<or> n = 95 \<or> (97 \<le> n \<and> n \<le> 122)
         \<or> n \<in> {170, 178, 179, 181, 185, 186, 188, 189, 190}
         \<or> (192 \<le> n \<and> n \<le> 214) \<or> (216 \<le> n \<and> n \<le> 246) \<or> 248 \<le> n)"

fun search_six_digits :: "bool \<Rightarrow> string \<Rightarrow> string option" where
  "search_six_digits after_word [] = None"
| "search_six_digits after_word (c # cs) =
     (if \<not> after_word \<and> 6 \<le> length (c # cs) \<and> list_all is_decimal (take 6 (c # cs))
         \<and> (case drop 6 (c # cs) of [] \<Rightarrow> True | d # _ \<Rightarrow> \<not> is_word_char d)
      then Some (take 6 (c # cs))
      else search_six_digits (is_word_char c) cs)"

definition extract_pincode_from_query :: "string \<Rightarrow> string option" where
  "extract_pincode_from_query query =
     (case search_six_digits False query of
        Some pincode \<Rightarrow>
          (if list_ex (\<lambda>digit. startswith pincode [digit]) ''123456789''
           then Some pincode else None)
      | None \<Rightarrow> None)"

text \<open>The second component is the pincode of \<open>location_info\<close>, when there is one.\<close>

definition enhance_query_with_location :: "string \<Rightarrow> string \<times> string option" where
  "enhance_query_with_location query =
     (case extract_pincode_from_query query of
        Some pincode \<Rightarrow>
          (let base_query = replace (replace query (''pin code '' @ pincode) [])
                              (''pincode '' @ pincode) [];
               base_query = strip (replace base_query ''near me'' [])
           in (base_query @ '' near '' @ pincode @ '' India'', Some pincode))
      | None \<Rightarrow> (query, None))"

definition create_search_prompt :: "string \<Rightarrow> string option \<Rightarrow> string" where
  "create_search_prompt query location_info =
     (let base_prompt = ''Using the latest search results provided, give current 2025 information about: ''
                        @ query @ ''. ''
                        @ ''Focus on recent data and current trends. Avoid outdated information.''
      in case location_info of
           Some pincode \<Rightarrow> base_prompt @ '' Location context: '' @ pincode
         | None \<Rightarrow> base_prompt)"

definition needs_common_sense_check :: "string \<Rightarrow> string \<Rightarrow> bool" where
  "needs_common_sense_check query response =
     (let safety_keywords = [''dangerous'', ''harmful'', ''illegal'', ''unsafe'', ''hurt'', ''damage''];
          query_lower = lower query;
          response_lower = lower response
      in if any_in safety_keywords response_lower then True
         else if any_in [''fly without'', ''breathe underwater'', ''time travel'', ''live forever'']
                   query_lower then True
         else False)"

definition should_add_memory_context :: "string \<Rightarrow> bool" where
  "should_add_memory_context query =
     any_in [''remember'', ''earlier'', ''before'', ''previous'', ''last time'',
             ''you said'', ''we talked'', ''mentioned'', ''discussed''] (lower query)"

subsection \<open>The assistant's state and its surroundings\<close>

record performance_stats =
  total_queries :: nat
  cache_hits :: nat
  search_requests :: nat
  average_response_time :: rat

record knowledge_item =
  k_answer :: string
  k_timestamp :: string
  k_usage_count :: int

text \<open>
  What a call reads from outside the program: the answer of the language model (the text of
  \<open>response['message']['content']\<close>, or an exception), the answer of the search client,
  and the clock.
\<close>

record env =
  ollama_chat :: "string \<Rightarrow> string \<Rightarrow> py_error + string"
  web_search_client :: "string \<Rightarrow> py_error + string"
  now_seconds :: rat
  now_hour :: nat
  now_month :: nat
  now_iso :: string
  session_id :: string
  elapsed :: rat

text \<open>
  The fields of \<open>TerminalAI\<close>.  \<open>_initialize_ai_components\<close> catches an exception of a
  constructor and leaves the remaining components unset, so each component is optional;
  reading an unset one raises AttributeError.  The state of the global random generator
  is carried along.
\<close>

record terminal_ai =
  response_cache :: "(string \<times> string) list"
  search_cache :: "(string \<times> string) list"
  cache_ttl :: rat
  last_cache_clear :: rat
  max_cache_size :: nat
  stats :: performance_stats
  conversation_context :: "string list"
  conversation_memory :: "(string \<times> string \<times> string) list"
  knowledge :: "(string \<times> knowledge_item) list"
  emotion_detector :: "unit option"
  personality_system :: "personality_system option"
  common_sense :: "common_sense option"
  context_memory :: "context_memory option"
  learning_system :: "learning_system option"
  web_search :: "unit option"
  random_state :: rng

subsection \<open>The caches\<close>

text \<open>\<open>items[k:]\<close> for an integer \<open>k\<close>, negative counting from the end.\<close>

definition slice_from :: "int \<Rightarrow> 'a list \<Rightarrow> 'a list" where
  "slice_from k xs = (if k < 0 then drop (nat (int (length xs) + k)) xs else drop (nat k) xs)"

definition clear_old_cache :: "rat \<Rightarrow> terminal_ai \<Rightarrow> terminal_ai" where
  "clear_old_cache now s =
     (let s1 = (if now - last_cache_clear s > cache_ttl s
                then s\<lparr>response_cache := [], search_cache := [], last_cache_clear := now\<rparr>
                else s)
      in if length (response_cache s1) > max_cache_size s1
         then s1\<lparr>response_cache :=
                   slice_from ((- int (max_cache_size s1)) div 2) (response_cache s1)\<rparr>
         else s1)"

definition update_response_time :: "rat \<Rightarrow> performance_stats \<Rightarrow> performance_stats" where
  "update_response_time response_time st =
     (if total_queries st = 0 then st\<lparr>average_response_time := response_time\<rparr>
      else st\<lparr>average_response_time :=
                (average_response_time st * of_nat (total_queries st) + response_time)
                / (of_nat (total_queries st) + 1)\<rparr>)"

definition search_web :: "env \<Rightarrow> string \<Rightarrow> terminal_ai \<Rightarrow> string \<times> terminal_ai" where
  "search_web e query s =
     (let clean_query = clean_search_query query;
          cache_key = take 100 (lower clean_query)
      in case map_of (search_cache s) cache_key of
           Some cached \<Rightarrow> (cached, s\<lparr>stats := (stats s)\<lparr>cache_hits := cache_hits (stats s) + 1\<rparr>\<rparr>)
         | None \<Rightarrow>
             (let s1 = s\<lparr>stats := (stats s)\<lparr>search_requests := search_requests (stats s) + 1\<rparr>\<rparr>;
                  failed = ''I couldn't search for '' @ [CHR 0x27] @ clean_query @ [CHR 0x27]
                           @ '' right now, but I can provide general information.''
              in case web_search s1 of
                   None \<Rightarrow> (failed, s1)
                 | Some _ \<Rightarrow>
                     (case web_search_client e clean_query of
                        Inl err \<Rightarrow> (failed, s1)
                      | Inr result \<Rightarrow>
                          (let s2 = (if result \<noteq> [] \<and> \<not> contains (lower result) ''error''
                                     then s1\<lparr>search_cache := dict_set (search_cache s1) cache_key result\<rparr>
                                     else s1)
                           in (result, s2\<lparr>stats := update_response_time (elapsed e) (stats s2)\<rparr>)))))"

definition generate_cache_key :: "string \<Rightarrow> string \<Rightarrow> string" where
  "generate_cache_key prompt context = take 100 (lower (prompt @ '':'' @ context))"

definition get_system_prompt :: "terminal_ai \<Rightarrow> py_error + string" where
  "get_system_prompt s =
     (case personality_system s of
        None \<Rightarrow> Inl AttributeError
      | Some ps \<Rightarrow>
          (case get_current_personality_info ps of
             Inl err \<Rightarrow> Inl err
           | Inr personality_info \<Rightarrow>
               Inr (''You are a helpful AI assistant. Respond naturally and conversationally. ''
                    @ ''For greetings, respond with simple greetings. For questions, provide clear and accurate answers. ''
                    @ ''Your personality is '' @ info_name personality_info @ '' - ''
                    @ info_style personality_info @ ''. '')))"

text \<open>\<open>_call_ollama_with_timeout\<close>: any exception of the call becomes \<open>None\<close>.\<close>

definition call_ollama_with_timeout :: "env \<Rightarrow> string \<Rightarrow> string \<Rightarrow> string option" where
  "call_ollama_with_timeout e system_prompt full_prompt =
     (case ollama_chat e system_prompt full_prompt of
        Inl err \<Rightarrow> None
      | Inr content \<Rightarrow> Some (strip content))"

definition get_ai_response :: "env \<Rightarrow> string \<Rightarrow> string \<Rightarrow> terminal_ai \<Rightarrow> string \<times> terminal_ai" where
  "get_ai_response e prompt context s =
     (let s1 = s\<lparr>stats := (stats s)\<lparr>total_queries := total_queries (stats s) + 1\<rparr>\<rparr>;
          cache_key = generate_cache_key prompt context
      in case map_of (response_cache s1) cache_key of
           Some cached \<Rightarrow> (cached, s1\<lparr>stats := (stats s1)\<lparr>cache_hits := cache_hits (stats s1) + 1\<rparr>\<rparr>)
         | None \<Rightarrow>
             (case get_system_prompt s1 of
                Inl err \<Rightarrow> (get_fallback_response prompt, s1)
              | Inr system_prompt \<Rightarrow>
                  (case call_ollama_with_timeout e system_prompt (prepare_full_prompt prompt context) of
                     Some (c # cs) \<Rightarrow>
                       (c # cs,
                        (let s2 = s1\<lparr>response_cache := dict_set (response_cache s1) cache_key (c # cs)\<rparr>
                         in s2\<lparr>stats := update_response_time (elapsed e) (stats s2)\<rparr>))
                   | _ \<Rightarrow> (get_fallback_response prompt, s1))))"

subsection \<open>The enhancement pipeline\<close>

text \<open>
  The first two steps of \<open>enhance_ai_response\<close>: the emotion of the query and, for a
  confidence above 0.85, the empathetic phrase put before the raw response.  The result is
  the new value of the variable \<open>raw_response\<close>.
\<close>

definition enhance_emotion ::
  "string \<Rightarrow> string \<Rightarrow> terminal_ai \<Rightarrow> (py_error + string) \<times> terminal_ai" where
  "enhance_emotion query raw_response s =
     (case emotion_detector s of
        None \<Rightarrow> (Inl AttributeError, s)
      | Some _ \<Rightarrow>
          (case detect_emotion query of
             Inl err \<Rightarrow> (Inl err, s)
           | Inr (emotion, confidence) \<Rightarrow>
               (if confidence > 85 / 100
                then (case get_empathetic_response emotion confidence (random_state s) of
                        (Inl err, g) \<Rightarrow> (Inl err, s\<lparr>random_state := g\<rparr>)
                      | (Inr empathy, g) \<Rightarrow>
                          (Inr (empathy @ '' '' @ raw_response), s\<lparr>random_state := g\<rparr>))
                else (Inr raw_response, s))))"

text \<open>Step 3: the personality, always applied.\<close>

definition enhance_personality ::
  "string \<Rightarrow> terminal_ai \<Rightarrow> (py_error + string) \<times> terminal_ai" where
  "enhance_personality raw_response s =
     (case personality_system s of
        None \<Rightarrow> (Inl AttributeError, s)
      | Some ps \<Rightarrow>
          (case apply_personality_to_response ps raw_response (random_state s) of
             (Inl err, g) \<Rightarrow> (Inl err, s\<lparr>random_state := g\<rparr>)
           | (Inr response, g) \<Rightarrow> (Inr response, s\<lparr>random_state := g\<rparr>)))"

text \<open>Step 4: the common-sense pass, when the check asks for it.\<close>

definition enhance_common_sense ::
  "env \<Rightarrow> string \<Rightarrow> string \<Rightarrow> terminal_ai \<Rightarrow> (py_error + string) \<times> terminal_ai" where
  "enhance_common_sense e query response s =
     (if needs_common_sense_check query response
      then (case common_sense s of
              None \<Rightarrow> (Inl AttributeError, s)
            | Some cs \<Rightarrow>
                (case enhance_with_common_sense (now_hour e) (now_month e) (now_iso e)
                        query response cs of
                   (response1, cs1) \<Rightarrow> (Inr response1, s\<lparr>common_sense := Some cs1\<rparr>)))
      else (Inr response, s))"

text \<open>Step 5: the memory phrase, when the query refers to the conversation.\<close>

definition enhance_memory :: "string \<Rightarrow> string \<Rightarrow> terminal_ai \<Rightarrow> py_error + string" where
  "enhance_memory query response s =
     (if should_add_memory_context query
      then (case context_memory s of
              None \<Rightarrow> Inl AttributeError
            | Some cm \<Rightarrow>
                (if get_relevant_context cm query \<noteq> []
                 then Inr (''Based on our conversation, '' @ response)
                 else Inr response))
      else Inr response)"

text \<open>Step 6: a personalised response replaces the response when it is shorter.\<close>

definition enhance_learning :: "string \<Rightarrow> string \<Rightarrow> terminal_ai \<Rightarrow> py_error + string" where
  "enhance_learning query response s =
     (case learning_system s of
        None \<Rightarrow> Inl AttributeError
      | Some ls \<Rightarrow>
          (case get_personalized_response ls query of
             Inl err \<Rightarrow> Inl err
           | Inr None \<Rightarrow> Inr response
           | Inr (Some personalized) \<Rightarrow>
               (if personalized \<noteq> [] \<and> length personalized < length response
                then Inr personalized else Inr response)))"

text \<open>
  \<open>enhance_ai_response\<close>: the steps in their order inside the \<open>try\<close>; the \<open>except\<close>
  returns \<open>raw_response\<close>, which carries the empathetic phrase once step 2 has assigned it.
\<close>

definition enhance_ai_response ::
  "env \<Rightarrow> string \<Rightarrow> string \<Rightarrow> terminal_ai \<Rightarrow> string \<times> terminal_ai" where
  "enhance_ai_response e query raw_response s =
     (case enhance_emotion query raw_response s of
        (Inl err, s1) \<Rightarrow> (raw_response, s1)
      | (Inr raw1, s1) \<Rightarrow>
          (case enhance_personality raw1 s1 of
             (Inl err, s2) \<Rightarrow> (raw1, s2)
           | (Inr response, s2) \<Rightarrow>
               (case enhance_common_sense e query response s2 of
                  (Inl err, s3) \<Rightarrow> (raw1, s3)
                | (Inr response1, s3) \<Rightarrow>
                    (case enhance_memory query response1 s3 of
                       Inl err \<Rightarrow> (raw1, s3)
                     | Inr response2 \<Rightarrow>
                         (case enhance_learning query response2 s3 of
                            Inl err \<Rightarrow> (raw1, s3)
                          | Inr response3 \<Rightarrow> (strip response3, s3))))))"

text \<open>
  \<open>_apply_translation\<close>: the translation service returns its argument, and every other
  path returns the response as well.
\<close>

definition apply_translation :: "string \<Rightarrow> string" where
  "apply_translation response = response"

definition update_conversation_context :: "string \<Rightarrow> string \<Rightarrow> terminal_ai \<Rightarrow> terminal_ai" where
  "update_conversation_context query response s =
     (let cc = conversation_context s @ [''Q: '' @ query @ '' A: '' @ response]
      in s\<lparr>conversation_context := (if length cc > 20 then drop (length cc - 15) cc else cc)\<rparr>)"

subsection \<open>The two paths and smart\_response\<close>

text \<open>
  \<open>save_enhanced_memory\<close> only hands its five writes to the worker pool and catches every
  exception, so it leaves the state of the turn unchanged; the writes are \<open>memory_tasks\<close>
  below.
\<close>

definition handle_direct_response ::
  "env \<Rightarrow> string \<Rightarrow> terminal_ai \<Rightarrow> (py_error + string) \<times> terminal_ai" where
  "handle_direct_response e query s =
     (case context_memory s of
        None \<Rightarrow> (Inl AttributeError, s)
      | Some cm \<Rightarrow>
          (let memory_context = get_relevant_context cm query;
               context_prompt =
                 (if memory_context \<noteq> [] \<and> should_add_memory_context query
                  then ''Conversation context: '' @ memory_context @ [CHR 0x0A]
                       @ ''Current question: '' @ query
                  else query);
               (raw_response, s1) = get_ai_response e context_prompt [] s;
               (response, s2) = enhance_ai_response e query raw_response s1;
               response = apply_translation response
           in (Inr response, update_conversation_context query response s2)))"

definition handle_search_response ::
  "env \<Rightarrow> string \<Rightarrow> terminal_ai \<Rightarrow> (py_error + string) \<times> terminal_ai" where
  "handle_search_response e query s =
     (let (enhanced_query, location_info) = enhance_query_with_location query;
          (search_results, s1) = search_web e enhanced_query s
      in if search_results = [] \<or> contains (lower search_results) ''error''
         then handle_direct_response e query s1
         else (let enhanced_prompt = create_search_prompt query location_info;
                   (raw_response, s2) =
                      get_ai_response e enhanced_prompt (take 1200 search_results) s1;
                   (response, s3) = enhance_ai_response e query raw_response s2;
                   response = apply_translation response
               in (Inr response, update_conversation_context query response s3)))"

definition smart_response :: "env \<Rightarrow> string \<Rightarrow> terminal_ai \<Rightarrow> string \<times> terminal_ai" where
  "smart_response e query s =
     (case (if needs_search query then handle_search_response e query s
            else handle_direct_response e query s) of
        (Inl err, s1) \<Rightarrow> (get_fallback_response query, s1)
      | (Inr response, s1) \<Rightarrow> (response, s1))"

subsection \<open>The background writes\<close>

definition save_to_memory :: "string \<Rightarrow> string \<Rightarrow> string \<Rightarrow> terminal_ai \<Rightarrow> terminal_ai" where
  "save_to_memory query response now s =
     (let cm = conversation_memory s @ [(query, response, now)]
      in s\<lparr>conversation_memory := (if length cm > 15 then drop (length cm - 10) cm else cm)\<rparr>)"

definition save_knowledge :: "string \<Rightarrow> string \<Rightarrow> string \<Rightarrow> terminal_ai \<Rightarrow> terminal_ai" where
  "save_knowledge query answer now s =
     (let key = take 100 (lower query);
          count = (case map_of (knowledge s) key of None \<Rightarrow> 0 | Some item \<Rightarrow> k_usage_count item)
      in s\<lparr>knowledge := dict_set (knowledge s) key
                \<lparr>k_answer = answer, k_timestamp = now, k_usage_count = count + 1\<rparr>\<rparr>)"

text \<open>
  The writes that \<open>save_enhanced_memory\<close> submits, each run to its end in the order of
  submission.  Building the list of futures stops at the first component that is not set;
  an exception inside a write stays in its future.
\<close>

definition memory_tasks :: "env \<Rightarrow> string \<Rightarrow> string \<Rightarrow> terminal_ai \<Rightarrow> terminal_ai" where
  "memory_tasks e query response s =
     (let s1 = save_to_memory query response (now_iso e) s;
          s2 = save_knowledge query response (now_iso e) s1
      in case context_memory s2 of
           None \<Rightarrow> s2
         | Some cm \<Rightarrow>
             (case learning_system s2 of
                None \<Rightarrow>
                  (let cm1 = add_to_session_memory query response (now_iso e) (session_id e) cm;
                       cm2 = cm1\<lparr>long_term :=
                                 snd (add_to_long_term_memory query response (now_iso e)
                                        (long_term cm1))\<rparr>
                   in s2\<lparr>context_memory := Some cm2\<rparr>)
              | Some ls \<Rightarrow>
                  (let cm1 = add_to_session_memory query response (now_iso e) (session_id e) cm;
                       cm2 = cm1\<lparr>long_term :=
                                 snd (add_to_long_term_memory query response (now_iso e)
                                        (long_term cm1))\<rparr>;
                       ls1 = snd (learn_from_conversation query response None (now_iso e) ls)
                   in s2\<lparr>context_memory := Some cm2, learning_system := Some ls1\<rparr>)))"

text \<open>One turn of the terminal loop: the response, then the background writes.\<close>

definition turn :: "env \<Rightarrow> string \<Rightarrow> terminal_ai \<Rightarrow> string \<times> terminal_ai" where
  "turn e query s =
     (case smart_response e query s of
        (response, s1) \<Rightarrow> (response, memory_tasks e query response s1))"

subsection \<open>A new assistant\<close>

text \<open>
  The object after \<open>__init__\<close> when every constructor succeeds and no file of an earlier
  session exists.  \<open>_load_initial_data\<close> calls \<open>_clear_old_cache\<close>, the only call of
  that method.
\<close>

definition new_terminal_ai :: "rat \<Rightarrow> rng \<Rightarrow> terminal_ai" where
  "new_terminal_ai now g =
     clear_old_cache now
       \<lparr>response_cache = [], search_cache = [], cache_ttl = 3600, last_cache_clear = now,
        max_cache_size = 1000,
        stats = \<lparr>total_queries = 0, cache_hits = 0, search_requests = 0,
                  average_response_time = 0\<rparr>,
        conversation_context = [], conversation_memory = [], knowledge = [],
        emotion_detector = Some (),
        personality_system = Some personality_init,
        common_sense = Some \<lparr>cs_context_memory = []\<rparr>,
        context_memory = Some \<lparr>session_memory = [], long_term = empty_long_term_memory\<rparr>,
        learning_system =
          Some \<lparr>learned_knowledge = [],
                preferences = \<lparr>favorite_color = None, favorite_food = None, pref_name = None,
                                pref_location = None\<rparr>,
                patterns = []\<rparr>,
        web_search = Some (),
        random_state = g\<rparr>"

text \<open>
  Surroundings for the examples: a language model that answers every prompt with the given
  text, a search client that returns the given text, and a clock at the given second.
\<close>

definition sample_env :: "string \<Rightarrow> string \<Rightarrow> rat \<Rightarrow> env" where
  "sample_env answer found now =
     \<lparr>ollama_chat = (\<lambda>system_prompt full_prompt. Inr answer),
      web_search_client = (\<lambda>query. Inr found),
      now_seconds = now, now_hour = 10, now_month = 5, now_iso = ''2025-05-01T10:00:00'',
      session_id = ''20250501_10'', elapsed = 1\<rparr>"

definition no_draws :: rng where
  "no_draws = \<lparr>floats = [], picks = []\<rparr>"

section \<open>Predicates used in the statements\<close>

text \<open>A string with at least one character that is not whitespace.\<close>

definition nonblank :: "string \<Rightarrow> bool" where
  "nonblank s = (\<exists>c \<in> set s. \<not> isspace c)"

text \<open>A non-empty string that neither starts nor ends with whitespace.\<close>

definition trimmed :: "string \<Rightarrow> bool" where
  "trimmed k = (k \<noteq> [] \<and> \<not> isspace (hd k) \<and> \<not> isspace (last k))"

text \<open>
  The texts the assistant keeps and may return later, the cached responses and the
  learned responses, all have a character that is not whitespace.
\<close>

definition stored_ok :: "terminal_ai \<Rightarrow> bool" where
  "stored_ok s =
     (list_all (\<lambda>(key, response). nonblank response) (response_cache s)
      \<and> (case learning_system s of
            None \<Rightarrow> True
          | Some ls \<Rightarrow>
              list_all (\<lambda>(key, entries). list_all (\<lambda>entry. nonblank (le_response entry)) entries)
                (learned_knowledge ls)))"

section \<open>Properties of the string functions\<close>

lemma length_lower [simp]: "length (lower s) = length s"
  by (simp add: lower_def)

lemma lower_append [simp]: "lower (a @ b) = lower a @ lower b"
  by (simp add: lower_def)

lemma of_char_lower_char:
  "(of_char (lower_char c) :: nat) =
     (let n = of_char c in if (65 \<le> n \<and> n \<le> 90) \<or> (192 \<le> n \<and> n \<le> 222 \<and> n \<noteq> 215) then n + 32 else n)"
  by (auto simp: lower_char_def Let_def)

lemma isspace_lower_char [simp]: "isspace (lower_char c) = isspace c"
  by (auto simp: isspace_def of_char_lower_char Let_def)

lemma contains_append_left: "contains a k \<Longrightarrow> contains (a @ b) k"
  unfolding contains_def by (metis sublist_append)

lemma contains_append_right: "contains b k \<Longrightarrow> contains (a @ b) k"
  unfolding contains_def by (metis sublist_append)

lemma sublist_dropWhile:
  assumes "k \<noteq> []" "\<not> P (hd k)"
  shows "sublist k (dropWhile P s) = sublist k s"
proof (induction s)
  case Nil
  then show ?case by simp
next
  case (Cons c cs)
  show ?case
  proof (cases "P c")
    case True
    with assms have "\<not> prefix k (c # cs)"
      by (cases k) auto
    with True Cons show ?thesis
      by (simp add: sublist_Cons_right)
  next
    case False
    then show ?thesis by simp
  qed
qed

lemma contains_strip:
  assumes "k \<noteq> []" "\<not> isspace (hd k)" "\<not> isspace (last k)"
  shows "contains (strip s) k = contains s k"
proof -
  have "sublist k (rev (dropWhile isspace (rev (dropWhile isspace s))))
        = sublist (rev k) (dropWhile isspace (rev (dropWhile isspace s)))"
    by (metis rev_rev_ident sublist_rev)
  also have "\<dots> = sublist (rev k) (rev (dropWhile isspace s))"
    using assms by (intro sublist_dropWhile) (auto simp: hd_rev)
  also have "\<dots> = sublist k (dropWhile isspace s)"
    by (simp add: sublist_rev)
  also have "\<dots> = sublist k s"
    using assms by (intro sublist_dropWhile) auto
  finally show ?thesis
    by (simp add: contains_def strip_def rstrip_def lstrip_def)
qed

lemma any_in_strip:
  "list_all trimmed ks \<Longrightarrow> any_in ks (strip s) = any_in ks s"
  by (induction ks) (auto simp: any_in_def trimmed_def contains_strip)

lemma trimmed_lists:
  "list_all trimmed immediate_skip" "list_all trimmed command_patterns"
  "list_all trimmed priority_triggers"
  by code_simp+

section \<open>C7: cache keys are cut at 100 characters\<close>

text \<open>
  C7.  When the lower-cased text \<open>prompt:context\<close> is longer than 100 characters the cache
  key has exactly 100 characters; two prompt and context pairs whose lower-cased texts agree
  on the first 100 characters get the same key; in particular two prompts that share their
  first 100 characters (or more) collide, whatever follows and whatever the contexts are.
\<close>

theorem cache_key_truncation:
  "(100 < length (lower (prompt @ '':'' @ ctx))
      \<longrightarrow> length (generate_cache_key prompt ctx) = 100)
   \<and> (take 100 (lower (p1 @ '':'' @ c1)) = take 100 (lower (p2 @ '':'' @ c2))
      \<longrightarrow> generate_cache_key p1 c1 = generate_cache_key p2 c2)
   \<and> (100 \<le> length common
      \<longrightarrow> generate_cache_key (common @ rest1) ctx1 = generate_cache_key (common @ rest2) ctx2)"
  by (auto simp: generate_cache_key_def)

text \<open>
  The three hypotheses of C7 at a prompt of 101 characters and a second prompt that differs
  from it in case and after character 100.
\<close>

theorem cache_key_truncation_witness:
  "100 < length (lower (replicate 100 CHR ''A'' @ ''x'' @ '':'' @ ''ctx''))
   \<and> length (generate_cache_key (replicate 100 CHR ''A'' @ ''x'') ''ctx'') = 100
   \<and> take 100 (lower ((replicate 100 CHR ''A'' @ ''x'') @ '':'' @ ''ctx''))
       = take 100 (lower ((replicate 100 CHR ''a'' @ ''y'') @ '':'' @ ''other''))
   \<and> generate_cache_key (replicate 100 CHR ''A'' @ ''x'') ''ctx''
       = generate_cache_key (replicate 100 CHR ''a'' @ ''y'') ''other''
   \<and> 100 \<le> length (replicate 100 CHR ''A'')"
proof -
  have lc: "lower_char CHR ''A'' = CHR ''a''" "lower_char CHR ''a'' = CHR ''a''"
    by code_simp+
  have h1: "100 < length (lower ((replicate 100 CHR ''A'' @ ''x'') @ '':'' @ ''ctx''))"
    by simp
  have h2: "take 100 (lower ((replicate 100 CHR ''A'' @ ''x'') @ '':'' @ ''ctx''))
       = take 100 (lower ((replicate 100 CHR ''a'' @ ''y'') @ '':'' @ ''other''))"
    by (simp add: lower_def lc)
  have h3: "100 \<le> length (replicate 100 CHR ''A'')"
    by simp
  note t = cache_key_truncation [where prompt = "replicate 100 CHR ''A'' @ ''x''"
        and ctx = "''ctx''" and ?p1.0 = "replicate 100 CHR ''A'' @ ''x''" and ?c1.0 = "''ctx''"
        and ?p2.0 = "replicate 100 CHR ''a'' @ ''y''" and ?c2.0 = "''other''"
        and common = "replicate 100 CHR ''A''"]
  from t h1 have a: "length (generate_cache_key (replicate 100 CHR ''A'' @ ''x'') ''ctx'') = 100"
    by blast
  from t h2 have b: "generate_cache_key (replicate 100 CHR ''A'' @ ''x'') ''ctx''
       = generate_cache_key (replicate 100 CHR ''a'' @ ''y'') ''other''"
    by blast
  from a b h1 h2 h3 show ?thesis
    by (simp only: append_assoc simp_thms)
qed

section \<open>C8: set\_personality and names outside the table\<close>

text \<open>
  C8 as stated fails: the name is lower-cased before the lookup, so a name that is not a key
  of the table, such as \<open>FUNNY\<close>, is accepted when its lower-case form is a key.
\<close>

theorem set_personality_literal_counterexample:
  "''FUNNY'' \<notin> set (map fst personalities)
   \<and> set_personality ''FUNNY'' \<lparr>current_personality = ''energetic''\<rparr>
       = (True, \<lparr>current_personality = ''funny''\<rparr>)"
  by code_simp

text \<open>
  C8, amended.  For every name whose lower-case form is not a key of the personality table,
  \<open>set_personality\<close> returns \<open>False\<close> and leaves the object unchanged; after
  \<open>set_personality("energetic")\<close> has succeeded, \<open>set_personality("bogus")\<close> returns
  \<open>False\<close> and the active personality is still \<open>energetic\<close>.
\<close>

theorem set_personality_rejects_unknown:
  "(lower name \<notin> set (map fst personalities) \<longrightarrow> set_personality name ps = (False, ps))
   \<and> (let (ok, ps1) = set_personality ''energetic'' personality_init
      in ok \<and> set_personality ''bogus'' ps1 = (False, ps1)
         \<and> current_personality ps1 = ''energetic'')"
proof
  show "lower name \<notin> set (map fst personalities) \<longrightarrow> set_personality name ps = (False, ps)"
    by (simp add: set_personality_def)
  show "let (ok, ps1) = set_personality ''energetic'' personality_init
      in ok \<and> set_personality ''bogus'' ps1 = (False, ps1)
         \<and> current_personality ps1 = ''energetic''"
    by code_simp
qed

text \<open>The hypothesis of the amended C8 holds for the name \<open>bogus\<close>.\<close>

theorem set_personality_rejects_unknown_witness:
  "lower ''bogus'' \<notin> set (map fst personalities)
   \<and> set_personality ''bogus'' \<lparr>current_personality = ''energetic''\<rparr>
       = (False, \<lparr>current_personality = ''energetic''\<rparr>)"
proof -
  have h: "lower ''bogus'' \<notin> set (map fst personalities)"
    by code_simp
  from set_personality_rejects_unknown [of "''bogus''" "\<lparr>current_personality = ''energetic''\<rparr>"]
  show ?thesis using h by simp
qed

section \<open>C9: the active personality is always a key of the table\<close>

lemma random_choice_Inr:
  "xs \<noteq> [] \<Longrightarrow> \<exists>x g'. random_choice xs g = (Inr x, g')"
  by (simp add: random_choice_def split: list.split)

lemma add_humor_Inr: "\<exists>r g'. add_humor response g = (Inr r, g')"
proof -
  obtain r g1 where rr: "random_random g = (r, g1)" by (cases "random_random g")
  show ?thesis
    unfolding add_humor_def Let_def rr
    by (simp add: random_choice_def split: list.split)
qed

lemma make_professional_Inr: "\<exists>r g'. make_professional response g = (Inr r, g')"
proof -
  obtain r g1 where rr: "random_random g = (r, g1)" by (cases "random_random g")
  show ?thesis
    unfolding make_professional_def Let_def rr
    by (simp add: random_choice_def split: list.split)
qed

lemma add_energy_Inr: "\<exists>r g'. add_energy response g = (Inr r, g')"
proof -
  obtain r g1 where rr: "random_random g = (r, g1)" by (cases "random_random g")
  show ?thesis
    unfolding add_energy_def Let_def rr
    by (simp add: random_choice_def split: list.split)
qed

lemma add_wisdom_Inr: "\<exists>r g'. add_wisdom response g = (Inr r, g')"
proof -
  obtain r g1 where rr: "random_random g = (r, g1)" by (cases "random_random g")
  have inner: "\<exists>r' g'. (let (r2, g3) = random_random g2
              in if r2 < 2 / 10
                 then (case random_choice ['' Such is the nature of knowledge.'',
                          '' This requires thoughtful consideration.'',
                          '' Wisdom comes through understanding.''] g3 of
                         (Inl e, g4) \<Rightarrow> (Inl e, g4)
                       | (Inr ending, g4) \<Rightarrow> (Inr (response1 @ ending), g4))
                 else (Inr response1, g3)) = (Inr r', g')" for response1 g2
  proof -
    obtain r2 g3 where rr2: "random_random g2 = (r2, g3)" by (cases "random_random g2")
    show ?thesis unfolding rr2 by (simp add: random_choice_def split: list.split)
  qed
  show ?thesis
    unfolding add_wisdom_def Let_def rr
    using inner by (simp add: random_choice_def Let_def split: list.split)
qed

lemma personality_keys:
  "map fst personalities = [''friendly'', ''professional'', ''funny'', ''wise'', ''energetic'']"
  by (simp add: personalities_def)

lemma lookup_personality_known:
  assumes "current_personality ps \<in> set (map fst personalities)"
  shows "\<exists>p. lookup_personality ps = Inr p \<and> speech_patterns p \<noteq> []"
proof -
  from assms have "current_personality ps \<in> {''friendly'', ''professional'', ''funny'', ''wise'', ''energetic''}"
    by (simp add: personality_keys)
  then show ?thesis
    by (auto simp: lookup_personality_def personalities_def)
qed

lemma set_personality_keeps_key:
  "current_personality ps \<in> set (map fst personalities)
   \<Longrightarrow> current_personality (snd (set_personality name ps)) \<in> set (map fst personalities)"
  by (simp add: set_personality_def)

lemma set_personalities_keeps_key:
  "current_personality ps \<in> set (map fst personalities)
   \<Longrightarrow> current_personality (set_personalities names ps) \<in> set (map fst personalities)"
  by (induction names arbitrary: ps) (simp_all add: set_personality_keeps_key del: set_map)

lemma apply_personality_known:
  assumes "current_personality ps \<in> set (map fst personalities)"
  shows "\<exists>r g'. apply_personality_to_response ps response g = (Inr r, g')"
proof -
  from lookup_personality_known [OF assms] obtain p
    where p: "lookup_personality ps = Inr p" "speech_patterns p \<noteq> []" by blast
  obtain r g1 where rr: "random_random g = (r, g1)" by (cases "random_random g")
  obtain response1 g2 where first:
    "(if r < 3 / 10
      then (case random_choice (speech_patterns p) g1 of
              (Inl e, g2) \<Rightarrow> (Inl e, g2)
            | (Inr pattern, g2) \<Rightarrow> (Inr (pattern @ '' '' @ response), g2))
      else (Inr response, g1)) = (Inr response1, g2)"
    using random_choice_Inr [OF p(2), of g1] by (cases "r < 3 / 10") auto
  have "apply_personality_to_response ps response g =
          (if current_personality ps = ''funny'' then add_humor response1 g2
           else if current_personality ps = ''professional'' then make_professional response1 g2
           else if current_personality ps = ''energetic'' then add_energy response1 g2
           else if current_personality ps = ''wise'' then add_wisdom response1 g2
           else (Inr response1, g2))"
    unfolding apply_personality_to_response_def p Let_def rr
    by (simp only: sum.case prod.case first)
  then show ?thesis
    using add_humor_Inr [of response1 g2] make_professional_Inr [of response1 g2]
      add_energy_Inr [of response1 g2] add_wisdom_Inr [of response1 g2]
    by auto
qed

text \<open>
  C9.  The object starts with the personality \<open>friendly\<close>, and after any sequence of
  \<open>set_personality\<close> calls \<open>current_personality\<close> is one of the five keys of the
  table.  So \<open>get_current_personality_info\<close> returns its dictionary and
  \<open>apply_personality_to_response\<close> returns a text, for every response and all random
  draws: neither raises KeyError (nor any other exception of the model).
\<close>

theorem current_personality_always_known:
  "current_personality (set_personalities names personality_init) \<in> set (map fst personalities)
   \<and> (\<exists>info. get_current_personality_info (set_personalities names personality_init) = Inr info)
   \<and> (\<exists>r g'. apply_personality_to_response (set_personalities names personality_init) response g
               = (Inr r, g'))"
proof -
  have init: "current_personality personality_init \<in> set (map fst personalities)"
    by (simp add: personality_init_def personality_keys)
  have known: "current_personality (set_personalities names personality_init)
                 \<in> set (map fst personalities)"
    by (rule set_personalities_keeps_key [OF init])
  from lookup_personality_known [OF known] obtain p
    where "lookup_personality (set_personalities names personality_init) = Inr p" by blast
  then have "\<exists>info. get_current_personality_info (set_personalities names personality_init) = Inr info"
    by (simp add: get_current_personality_info_def)
  with known apply_personality_known [OF known] show ?thesis by blast
qed

section \<open>C1: the order of the tiers of needs\_search\<close>

text \<open>
  C1 as stated fails: the immediate-skip list is tested first, so a query that contains both
  \<open>hello\<close> and \<open>latest\<close> is not searched.
\<close>

theorem needs_search_skip_first_counterexample:
  "contains (lower ''hello latest'') ''latest'' \<and> contains (lower ''hello latest'') ''hello''
   \<and> ''latest'' \<in> set priority_triggers \<and> ''hello'' \<in> set immediate_skip
   \<and> needs_search ''hello latest'' = False"
  by code_simp

lemma trimmed_more:
  "list_all trimmed info_requests" "list_all trimmed location_indicators"
  "list_all trimmed basic_knowledge"
  by code_simp+

text \<open>
  C1, amended.  A query whose lower-case form contains an immediate-skip phrase, or a command
  keyword, is never searched, also when it contains a priority trigger; a query that contains
  a priority trigger and neither an immediate-skip phrase nor a command keyword is searched.
\<close>

theorem needs_search_tier_order:
  "(any_in immediate_skip (lower query) \<longrightarrow> \<not> needs_search query)
   \<and> (any_in command_patterns (lower query) \<longrightarrow> \<not> needs_search query)
   \<and> (any_in priority_triggers (lower query) \<and> \<not> any_in immediate_skip (lower query)
        \<and> \<not> any_in command_patterns (lower query) \<longrightarrow> needs_search query)"
  by (simp add: needs_search_def Let_def any_in_strip trimmed_lists)

text \<open>The three hypotheses of the amended C1, each at a query that satisfies it.\<close>

theorem needs_search_tier_order_witness:
  "any_in immediate_skip (lower ''hello latest'') \<and> \<not> needs_search ''hello latest''
   \<and> any_in command_patterns (lower ''Latest NEWS'') \<and> \<not> needs_search ''Latest NEWS''
   \<and> any_in priority_triggers (lower ''Latest cricket score'')
   \<and> \<not> any_in immediate_skip (lower ''Latest cricket score'')
   \<and> \<not> any_in command_patterns (lower ''Latest cricket score'')
   \<and> needs_search ''Latest cricket score''"
proof -
  have h1: "any_in immediate_skip (lower ''hello latest'')" by code_simp
  have h2: "any_in command_patterns (lower ''Latest NEWS'')" by code_simp
  have h3: "any_in priority_triggers (lower ''Latest cricket score'')
     \<and> \<not> any_in immediate_skip (lower ''Latest cricket score'')
     \<and> \<not> any_in command_patterns (lower ''Latest cricket score'')" by code_simp
  from needs_search_tier_order [of "''hello latest''"] h1
  have c1: "\<not> needs_search ''hello latest''" by blast
  from needs_search_tier_order [of "''Latest NEWS''"] h2
  have c2: "\<not> needs_search ''Latest NEWS''" by blast
  from needs_search_tier_order [of "''Latest cricket score''"] h3
  have c3: "needs_search ''Latest cricket score''" by blast
  from h1 h2 h3 c1 c2 c3 show ?thesis by blast
qed

section \<open>C10: detect\_emotion is total\<close>

lemma split_aux_nonempty_cur: "cur \<noteq> [] \<Longrightarrow> split_aux cur s \<noteq> []"
  by (induction s arbitrary: cur) auto

lemma split_aux_nonblank: "nonblank s \<Longrightarrow> split_aux cur s \<noteq> []"
proof (induction s arbitrary: cur)
  case Nil
  then show ?case by (simp add: nonblank_def)
next
  case (Cons c cs)
  show ?case
  proof (cases "isspace c")
    case True
    with Cons.prems have "nonblank cs" by (auto simp: nonblank_def)
    with Cons.IH True show ?thesis by simp
  next
    case False
    then show ?thesis by (simp add: split_aux_nonempty_cur)
  qed
qed

lemma split_ws_nonblank: "nonblank s \<Longrightarrow> split_ws s \<noteq> []"
  by (simp add: split_ws_def split_aux_nonblank)

lemma nonblank_lower [simp]: "nonblank (lower s) = nonblank s"
  by (simp add: nonblank_def lower_def)

lemma contains_nonblank: "contains s k \<Longrightarrow> nonblank k \<Longrightarrow> nonblank s"
  unfolding contains_def nonblank_def using set_mono_sublist by blast

lemma keywords_nonblank:
  "\<forall>(emotion, keywords) \<in> set emotion_keywords. list_all nonblank keywords"
  unfolding nonblank_def by code_simp

lemma keyword_score_pos_nonblank:
  assumes "0 < keyword_score keywords t" "list_all nonblank keywords"
  shows "nonblank t"
proof -
  from assms(1) obtain k where "k \<in> set keywords" "contains t k"
    by (auto simp: keyword_score_def filter_empty_conv)
  with assms(2) show ?thesis
    by (auto simp: list_all_iff intro: contains_nonblank)
qed

lemma emotion_scores_nonblank:
  assumes "emotion_scores (lower text) \<noteq> []"
  shows "nonblank text"
proof -
  from assms obtain e sc where "(e, sc) \<in> set (emotion_scores (lower text))"
    by (cases "emotion_scores (lower text)") auto
  then obtain ks where "(e, ks) \<in> set emotion_keywords" "0 < keyword_score ks (lower text)"
    by (auto simp: emotion_scores_def)
  moreover from this keywords_nonblank have "list_all nonblank ks"
    by blast
  ultimately have "nonblank (lower text)"
    by (intro keyword_score_pos_nonblank [of ks])
  then show ?thesis by (simp only: nonblank_lower)
qed

text \<open>
  C10.  \<open>detect_emotion\<close> returns a label and a confidence for every text.  The division
  by the word count is reached only when some keyword occurs in the lower-cased text; every
  keyword has a character that is not whitespace, so the text has one too and the word count
  is at least 1: ZeroDivisionError is never raised.  The confidence lies between 0 and 1.
\<close>

theorem detect_emotion_total:
  "\<exists>label confidence. detect_emotion text = Inr (label, confidence)
      \<and> 0 \<le> confidence \<and> confidence \<le> 1"
proof (cases "emotion_scores (lower text)")
  case Nil
  then have "detect_emotion text = Inr (''neutral'', 1 / 2)"
    by (simp add: detect_emotion_def)
  moreover have "(0::rat) \<le> 1 / 2 \<and> (1::rat) / 2 \<le> 1" by simp
  ultimately show ?thesis by blast
next
  case (Cons x xs)
  then have "nonblank text" by (intro emotion_scores_nonblank) simp
  then have wc: "length (split_ws text) \<noteq> 0" by (simp add: split_ws_nonblank)
  obtain e sc where m: "max_from snd x xs = (e, sc)" by (cases "max_from snd x xs")
  show ?thesis
    using wc by (simp add: detect_emotion_def Cons m Let_def)
qed

section \<open>C5: the label and the confidence of detect\_emotion\<close>

lemma max_from_ge_best: "f best \<le> f (max_from f best xs)"
proof (induction xs arbitrary: best)
  case Nil
  show ?case by simp
next
  case (Cons a xs)
  show ?case
  proof (cases "f best < f a")
    case True
    with Cons [of a] show ?thesis by simp
  next
    case False
    with Cons [of best] show ?thesis by simp
  qed
qed

lemma max_from_first_max_aux:
  "max_from f x xs = m \<Longrightarrow>
   \<exists>ys zs. x # xs = ys @ m # zs \<and> (\<forall>y \<in> set ys. f y < f m) \<and> (\<forall>z \<in> set zs. f z \<le> f m)"
proof (induction xs arbitrary: x)
  case Nil
  then have "[x] = [] @ m # [] \<and> (\<forall>y \<in> set []. f y < f m) \<and> (\<forall>z \<in> set []. f z \<le> f m)"
    by simp
  then show ?case by blast
next
  case (Cons a xs)
  show ?case
  proof (cases "f x < f a")
    case True
    with Cons.prems have m: "max_from f a xs = m" by simp
    from Cons.IH [OF m] obtain ys zs where d: "a # xs = ys @ m # zs"
      "\<forall>y \<in> set ys. f y < f m" "\<forall>z \<in> set zs. f z \<le> f m"
      by blast
    from True max_from_ge_best [of f a xs] m have "f x < f m" by simp
    with d have "x # a # xs = (x # ys) @ m # zs
       \<and> (\<forall>y \<in> set (x # ys). f y < f m) \<and> (\<forall>z \<in> set zs. f z \<le> f m)" by simp
    then show ?thesis by blast
  next
    case False
    with Cons.prems have m: "max_from f x xs = m" by simp
    from Cons.IH [OF m] obtain ys zs where d: "x # xs = ys @ m # zs"
      "\<forall>y \<in> set ys. f y < f m" "\<forall>z \<in> set zs. f z \<le> f m"
      by blast
    show ?thesis
    proof (cases ys)
      case Nil
      with d(1) have "m = x" "zs = xs" by simp_all
      with False d(3) have "x # a # xs = [] @ m # (a # xs)
         \<and> (\<forall>y \<in> set []. f y < f m) \<and> (\<forall>z \<in> set (a # xs). f z \<le> f m)" by auto
      then show ?thesis by blast
    next
      case (Cons y ys')
      with d(1) have x: "y = x" "xs = ys' @ m # zs" by simp_all
      from d(2) Cons x(1) have "f x < f m" by simp
      with False have "f a < f m" by simp
      with d(2,3) Cons x have "x # a # xs = (x # a # ys') @ m # zs
         \<and> (\<forall>y \<in> set (x # a # ys'). f y < f m) \<and> (\<forall>z \<in> set zs. f z \<le> f m)" by auto
      then show ?thesis by blast
    qed
  qed
qed

lemma filter_eq_appendD:
  "filter P xs = ys @ zs \<Longrightarrow> \<exists>us vs. xs = us @ vs \<and> filter P us = ys \<and> filter P vs = zs"
proof (induction xs arbitrary: ys)
  case Nil
  then show ?case by simp
next
  case (Cons a xs)
  show ?case
  proof (cases "P a")
    case True
    show ?thesis
    proof (cases ys)
      case Nil
      with Cons.prems have "a # xs = [] @ (a # xs) \<and> filter P [] = ys \<and> filter P (a # xs) = zs"
        by simp
      then show ?thesis by blast
    next
      case (Cons y ys')
      with True Cons.prems have "y = a" "filter P xs = ys' @ zs" by simp_all
      with Cons.IH [of ys'] obtain us vs where "xs = us @ vs" "filter P us = ys'" "filter P vs = zs"
        by blast
      with True Cons \<open>y = a\<close> have "a # xs = (a # us) @ vs \<and> filter P (a # us) = ys \<and> filter P vs = zs"
        by simp
      then show ?thesis by blast
    qed
  next
    case False
    with Cons.prems have "filter P xs = ys @ zs" by simp
    with Cons.IH [of ys] obtain us vs where "xs = us @ vs" "filter P us = ys" "filter P vs = zs"
      by blast
    with False have "a # xs = (a # us) @ vs \<and> filter P (a # us) = ys \<and> filter P vs = zs"
      by simp
    then show ?thesis by blast
  qed
qed

lemma map_eq_append_ConsD:
  "map g T = A @ b # C \<Longrightarrow>
   \<exists>T1 t0 T2. T = T1 @ t0 # T2 \<and> map g T1 = A \<and> g t0 = b \<and> map g T2 = C"
proof -
  assume a: "map g T = A @ b # C"
  then obtain T1 R where R: "T = T1 @ R" "map g T1 = A" "map g R = b # C"
    by (auto simp: map_eq_append_conv)
  from R(3) obtain t0 T2 where "R = t0 # T2" "g t0 = b" "map g T2 = C"
    by (auto simp: map_eq_Cons_conv)
  with R(1,2) show ?thesis by blast
qed

lemma emotion_scores_first_max:
  assumes "emotion_scores t = x # xs" "max_from snd x xs = (e, sc)"
  shows "\<exists>before keywords after.
           emotion_keywords = before @ (e, keywords) # after
         \<and> sc = keyword_score keywords t
         \<and> (\<forall>(e', ks) \<in> set before. keyword_score ks t < sc)
         \<and> (\<forall>(e', ks) \<in> set after. keyword_score ks t \<le> sc)"
proof -
  define g where "g = (\<lambda>(emotion :: string, keywords). (emotion, keyword_score keywords t))"
  define P where "P = (\<lambda>(emotion :: string, score :: nat). score > 0)"
  have F: "filter P (map g emotion_keywords) = x # xs"
    using assms(1) by (simp add: emotion_scores_def g_def P_def)
  from max_from_first_max_aux [OF assms(2)] obtain ys zs where
    d: "x # xs = ys @ (e, sc) # zs" "\<forall>y \<in> set ys. snd y < snd (e, sc)"
       "\<forall>z \<in> set zs. snd z \<le> snd (e, sc)"
    by blast
  from F d(1) have "filter P (map g emotion_keywords) = ys @ (e, sc) # zs"
    by (simp only:)
  from filter_eq_appendD [OF this] obtain us vs where
    uv: "map g emotion_keywords = us @ vs" "filter P us = ys" "filter P vs = (e, sc) # zs"
    by blast
  from filter_eq_ConsD [OF uv(3)] obtain us' vs' where
    v: "vs = us' @ (e, sc) # vs'" "\<forall>u \<in> set us'. \<not> P u" "P (e, sc)" "zs = filter P vs'"
    by blast
  have pos: "0 < sc" using v(3) by (simp add: P_def)
  have before: "\<forall>y \<in> set (us @ us'). snd y < sc"
  proof
    fix y assume "y \<in> set (us @ us')"
    then consider "y \<in> set us" "P y" | "y \<in> set us" "\<not> P y" | "y \<in> set us'" by auto
    then show "snd y < sc"
    proof cases
      case 1
      with uv(2) have "y \<in> set ys" by auto
      with d(2) show ?thesis by auto
    next
      case 2
      with pos show ?thesis by (cases y) (simp add: P_def)
    next
      case 3
      with v(2) have "\<not> P y" by blast
      with pos show ?thesis by (cases y) (simp add: P_def)
    qed
  qed
  have after: "\<forall>z \<in> set vs'. snd z \<le> sc"
  proof
    fix z assume z: "z \<in> set vs'"
    show "snd z \<le> sc"
    proof (cases "P z")
      case True
      with z v(4) have "z \<in> set zs" by simp
      with d(3) show ?thesis by auto
    next
      case False
      then show ?thesis by (cases z) (simp add: P_def)
    qed
  qed
  from uv(1) v(1) have "map g emotion_keywords = (us @ us') @ (e, sc) # vs'" by simp
  from map_eq_append_ConsD [OF this] obtain T1 t0 T2 where
    T: "emotion_keywords = T1 @ t0 # T2" "map g T1 = us @ us'" "g t0 = (e, sc)" "map g T2 = vs'"
    by blast
  obtain e0 ks0 where t0: "t0 = (e0, ks0)" by (cases t0)
  with T(3) have e0: "e0 = e" "sc = keyword_score ks0 t" by (simp_all add: g_def)
  have b: "\<forall>(e', ks) \<in> set T1. keyword_score ks t < sc"
  proof (clarify)
    fix e' ks assume "(e', ks) \<in> set T1"
    then have "g (e', ks) \<in> g ` set T1" by (rule imageI)
    then have "g (e', ks) \<in> set (map g T1)" by (simp only: set_map)
    then have "g (e', ks) \<in> set (us @ us')" by (simp only: T(2))
    with before have "snd (g (e', ks)) < sc" by blast
    then show "keyword_score ks t < sc" by (simp add: g_def)
  qed
  have a: "\<forall>(e', ks) \<in> set T2. keyword_score ks t \<le> sc"
  proof (clarify)
    fix e' ks assume "(e', ks) \<in> set T2"
    then have "g (e', ks) \<in> g ` set T2" by (rule imageI)
    then have "g (e', ks) \<in> set (map g T2)" by (simp only: set_map)
    then have "g (e', ks) \<in> set vs'" by (simp only: T(4))
    with after have "snd (g (e', ks)) \<le> sc" by blast
    then show "keyword_score ks t \<le> sc" by (simp add: g_def)
  qed
  have "emotion_keywords = T1 @ (e, ks0) # T2"
    by (simp only: T(1) t0 e0(1))
  with e0(2) a b have "emotion_keywords = T1 @ (e, ks0) # T2
         \<and> sc = keyword_score ks0 t
         \<and> (\<forall>(e', ks) \<in> set T1. keyword_score ks t < sc)
         \<and> (\<forall>(e', ks) \<in> set T2. keyword_score ks t \<le> sc)"
    by (intro conjI)
  then show ?thesis
    by (intro exI [of _ T1] exI [of _ ks0] exI [of _ T2])
qed



text \<open>
  C5.  The score of a category is the number of its keywords that occur in the lower-cased
  text.  When every category scores 0 the result is \<open>('neutral', 0.5)\<close>.  Otherwise the
  result is a category of the table such that every category listed before it has a strictly
  smaller score and every category listed after it has a score that is not larger (the
  maximum, ties going to the first in table order), together with the confidence
  \<open>min(1.0, score / word_count * 10)\<close>, computed exactly.
\<close>

theorem detect_emotion_label:
  "((\<forall>(emotion, keywords) \<in> set emotion_keywords. keyword_score keywords (lower text) = 0)
      \<longrightarrow> detect_emotion text = Inr (''neutral'', 1 / 2))
   \<and> ((\<exists>(emotion, keywords) \<in> set emotion_keywords. 0 < keyword_score keywords (lower text))
      \<longrightarrow> (\<exists>before emotion keywords after.
            emotion_keywords = before @ (emotion, keywords) # after
          \<and> (\<forall>(e, ks) \<in> set before.
                 keyword_score ks (lower text) < keyword_score keywords (lower text))
          \<and> (\<forall>(e, ks) \<in> set after.
                 keyword_score ks (lower text) \<le> keyword_score keywords (lower text))
          \<and> detect_emotion text
              = Inr (emotion, min 1 (rat_of_nat (keyword_score keywords (lower text))
                                      / rat_of_nat (length (split_ws text)) * 10))))"
proof (intro conjI impI)
  assume "\<forall>(emotion, keywords) \<in> set emotion_keywords. keyword_score keywords (lower text) = 0"
  then have "emotion_scores (lower text) = []"
    by (auto simp: emotion_scores_def filter_empty_conv)
  then show "detect_emotion text = Inr (''neutral'', 1 / 2)"
    by (simp add: detect_emotion_def)
next
  assume "\<exists>(emotion, keywords) \<in> set emotion_keywords. 0 < keyword_score keywords (lower text)"
  then have "emotion_scores (lower text) \<noteq> []"
    by (force simp: emotion_scores_def filter_empty_conv)
  then obtain x xs where sc: "emotion_scores (lower text) = x # xs"
    by (cases "emotion_scores (lower text)") auto
  obtain e n where m: "max_from snd x xs = (e, n)" by (cases "max_from snd x xs")
  from sc have "nonblank text" by (intro emotion_scores_nonblank) simp
  then have wc: "length (split_ws text) \<noteq> 0" by (simp add: split_ws_nonblank)
  from emotion_scores_first_max [OF sc m] obtain before kws after where
    d: "emotion_keywords = before @ (e, kws) # after"
       "n = keyword_score kws (lower text)"
       "\<forall>(e', ks) \<in> set before. keyword_score ks (lower text) < n"
       "\<forall>(e', ks) \<in> set after. keyword_score ks (lower text) \<le> n"
    by blast
  have "detect_emotion text
          = Inr (e, min 1 (rat_of_nat n / rat_of_nat (length (split_ws text)) * 10))"
    using wc by (simp add: detect_emotion_def sc m Let_def min.commute)
  with d have "emotion_keywords = before @ (e, kws) # after
          \<and> (\<forall>(e', ks) \<in> set before.
                 keyword_score ks (lower text) < keyword_score kws (lower text))
          \<and> (\<forall>(e', ks) \<in> set after.
                 keyword_score ks (lower text) \<le> keyword_score kws (lower text))
          \<and> detect_emotion text
              = Inr (e, min 1 (rat_of_nat (keyword_score kws (lower text))
                                      / rat_of_nat (length (split_ws text)) * 10))"
    by simp
  then show "\<exists>before emotion keywords after.
            emotion_keywords = before @ (emotion, keywords) # after
          \<and> (\<forall>(e, ks) \<in> set before.
                 keyword_score ks (lower text) < keyword_score keywords (lower text))
          \<and> (\<forall>(e, ks) \<in> set after.
                 keyword_score ks (lower text) \<le> keyword_score keywords (lower text))
          \<and> detect_emotion text
              = Inr (emotion, min 1 (rat_of_nat (keyword_score keywords (lower text))
                                      / rat_of_nat (length (split_ws text)) * 10))"
    by (intro exI [of _ before] exI [of _ e] exI [of _ kws] exI [of _ after])
qed


text \<open>
  The two hypotheses of C5: no category scores on \<open>see you\<close>, and two categories tie
  on \<open>What a sad day\<close>.
\<close>

theorem detect_emotion_label_witness:
  "list_all (\<lambda>(emotion, keywords). keyword_score keywords (lower ''see you'') = 0)
      emotion_keywords
   \<and> detect_emotion ''see you'' = Inr (''neutral'', 1 / 2)
   \<and> (\<exists>(emotion, keywords) \<in> set emotion_keywords.
         0 < keyword_score keywords (lower ''What a sad day''))
   \<and> (\<exists>before emotion keywords after.
            emotion_keywords = before @ (emotion, keywords) # after
          \<and> (\<forall>(e, ks) \<in> set before.
                 keyword_score ks (lower ''What a sad day'')
                   < keyword_score keywords (lower ''What a sad day''))
          \<and> (\<forall>(e, ks) \<in> set after.
                 keyword_score ks (lower ''What a sad day'')
                   \<le> keyword_score keywords (lower ''What a sad day''))
          \<and> detect_emotion ''What a sad day''
              = Inr (emotion, min 1 (rat_of_nat (keyword_score keywords (lower ''What a sad day''))
                                      / rat_of_nat (length (split_ws ''What a sad day'')) * 10)))"
proof -
  have h1: "\<forall>(emotion, keywords) \<in> set emotion_keywords.
              keyword_score keywords (lower ''see you'') = 0"
    by code_simp
  have h2: "\<exists>(emotion, keywords) \<in> set emotion_keywords.
              0 < keyword_score keywords (lower ''What a sad day'')"
    by code_simp
  from detect_emotion_label [of "''see you''"] h1
  have c1: "detect_emotion ''see you'' = Inr (''neutral'', 1 / 2)" by blast
  from detect_emotion_label [of "''What a sad day''"] h2
  have c2: "\<exists>before emotion keywords after.
            emotion_keywords = before @ (emotion, keywords) # after
          \<and> (\<forall>(e, ks) \<in> set before.
                 keyword_score ks (lower ''What a sad day'')
                   < keyword_score keywords (lower ''What a sad day''))
          \<and> (\<forall>(e, ks) \<in> set after.
                 keyword_score ks (lower ''What a sad day'')
                   \<le> keyword_score keywords (lower ''What a sad day''))
          \<and> detect_emotion ''What a sad day''
              = Inr (emotion, min 1 (rat_of_nat (keyword_score keywords (lower ''What a sad day''))
                                      / rat_of_nat (length (split_ws ''What a sad day'')) * 10))"
    by (rule mp [OF conjunct2])
  from h1 have h1': "list_all (\<lambda>(emotion, keywords).
              keyword_score keywords (lower ''see you'') = 0) emotion_keywords"
    by (simp only: list_all_iff)
  from h1' c1 h2 c2 show ?thesis by (intro conjI)
qed

text \<open>In the tie between \<open>sad\<close> and \<open>confused\<close> the earlier category wins.\<close>

lemma detect_emotion_tie_example:
  "detect_emotion ''What a sad day'' = Inr (''sad'', 1)"
  by code_simp

section \<open>C6: a personal phrase and the importance score\<close>

lemma any_in_append_left: "any_in ks a \<Longrightarrow> any_in ks (a @ b)"
  by (auto simp: any_in_def list_ex_iff intro: contains_append_left)

lemma any_in_append_right: "any_in ks b \<Longrightarrow> any_in ks (a @ b)"
  by (auto simp: any_in_def list_ex_iff intro: contains_append_right)

lemma split_aux_append_length:
  "length (split_aux cur xs) \<le> length (split_aux cur (xs @ ys))"
proof (induction xs arbitrary: cur)
  case Nil
  show ?case
  proof (cases "cur = []")
    case True
    then show ?thesis by simp
  next
    case False
    then have "split_aux cur ys \<noteq> []" by (rule split_aux_nonempty_cur)
    then have "1 \<le> length (split_aux cur ys)" by (cases "split_aux cur ys") simp_all
    with False show ?thesis by simp
  qed
next
  case (Cons c cs)
  show ?case
    using Cons [of "[]"] Cons [of "cur @ [c]"] by simp
qed

lemma split_ws_append_length: "length (split_ws a) \<le> length (split_ws (a @ b))"
  by (simp add: split_ws_def split_aux_append_length)

text \<open>
  C6 as stated fails: the personal-information test adds 5 once, however many phrases the
  text contains, so a text that already has such a phrase gains nothing from another one.
\<close>

theorem importance_not_strict_counterexample:
  "calculate_importance (''i am'' @ '' '' @ ''my name'') = calculate_importance ''i am''
   \<and> ''my name'' \<in> set [''my name'', ''i am'', ''i live'', ''my age'', ''my job'']"
  by code_simp

text \<open>
  C6, amended.  Appending a personal-information phrase (in any letter case, after any
  separator) never lowers the score of \<open>calculate_importance\<close>, and raises it by at least
  5 when the lower-cased text contains no personal-information phrase itself.
\<close>

theorem importance_monotone:
  "lower phrase \<in> set [''my name'', ''i am'', ''i live'', ''my age'', ''my job''] \<longrightarrow>
     calculate_importance text \<le> calculate_importance (text @ sep @ phrase)
     \<and> (\<not> any_in [''my name'', ''i am'', ''i live'', ''my age'', ''my job''] (lower text)
          \<longrightarrow> calculate_importance text + 5 \<le> calculate_importance (text @ sep @ phrase))"
proof
  assume p: "lower phrase \<in> set [''my name'', ''i am'', ''i live'', ''my age'', ''my job'']"
  define t where "t = lower text"
  define t' where "t' = lower (text @ sep @ phrase)"
  have t': "t' = t @ lower (sep @ phrase)" by (simp add: t_def t'_def)
  have "contains (lower (sep @ phrase)) (lower phrase)"
    by (simp add: contains_def)
  with p have "any_in [''my name'', ''i am'', ''i live'', ''my age'', ''my job''] (lower (sep @ phrase))"
    by (auto simp: any_in_def)
  then have personal: "any_in [''my name'', ''i am'', ''i live'', ''my age'', ''my job''] t'"
    unfolding t' by (rule any_in_append_right)
  have q: "contains t ''?'' \<Longrightarrow> contains t' ''?''"
    unfolding t' by (rule contains_append_left)
  have e: "any_in [''love'', ''hate'', ''sad'', ''happy'', ''angry'', ''excited''] t
       \<Longrightarrow> any_in [''love'', ''hate'', ''sad'', ''happy'', ''angry'', ''excited''] t'"
    unfolding t' by (rule any_in_append_left)
  have h: "any_in [''help'', ''please'', ''can you'', ''need''] t
       \<Longrightarrow> any_in [''help'', ''please'', ''can you'', ''need''] t'"
    unfolding t' by (rule any_in_append_left)
  have w: "length (split_ws t) \<le> length (split_ws t')"
    unfolding t' by (rule split_ws_append_length)
  define P where "P = any_in [''my name'', ''i am'', ''i live'', ''my age'', ''my job''] t"
  define Q where "Q = contains t ''?''"
  define Q' where "Q' = contains t' ''?''"
  define E where "E = any_in [''love'', ''hate'', ''sad'', ''happy'', ''angry'', ''excited''] t"
  define E' where "E' = any_in [''love'', ''hate'', ''sad'', ''happy'', ''angry'', ''excited''] t'"
  define H where "H = any_in [''help'', ''please'', ''can you'', ''need''] t"
  define H' where "H' = any_in [''help'', ''please'', ''can you'', ''need''] t'"
  define W where "W = (10 < length (split_ws t))"
  define W' where "W' = (10 < length (split_ws t'))"
  have imp: "Q \<longrightarrow> Q'" "E \<longrightarrow> E'" "H \<longrightarrow> H'" "W \<longrightarrow> W'"
    using q e h w by (auto simp: Q_def Q'_def E_def E'_def H_def H'_def W_def W'_def)
  have old: "calculate_importance text
      = (if P then 5 else 0) + (if Q then 2 else 0) + (if E then 3 else 0)
        + (if H then 2 else 0) + (if W then 1 else 0)"
    unfolding calculate_importance_def Let_def t_def [symmetric] P_def Q_def E_def H_def W_def
    by simp
  have new: "calculate_importance (text @ sep @ phrase)
      = 5 + (if Q' then 2 else 0) + (if E' then 3 else 0)
        + (if H' then 2 else 0) + (if W' then 1 else 0)"
    unfolding calculate_importance_def Let_def t'_def [symmetric] Q'_def E'_def H'_def W'_def
    using personal by simp
  show "calculate_importance text \<le> calculate_importance (text @ sep @ phrase)
     \<and> (\<not> any_in [''my name'', ''i am'', ''i live'', ''my age'', ''my job''] (lower text)
          \<longrightarrow> calculate_importance text + 5 \<le> calculate_importance (text @ sep @ phrase))"
    unfolding old new t_def [symmetric] P_def [symmetric] using imp by auto
qed

text \<open>Both hypotheses of the amended C6 hold for \<open>My Name\<close> appended to a request.\<close>

theorem importance_monotone_witness:
  "lower ''My Name'' \<in> set [''my name'', ''i am'', ''i live'', ''my age'', ''my job'']
   \<and> calculate_importance ''can you help?'' \<le> calculate_importance (''can you help?'' @ '' '' @ ''My Name'')
   \<and> \<not> any_in [''my name'', ''i am'', ''i live'', ''my age'', ''my job''] (lower ''can you help?'')
   \<and> calculate_importance ''can you help?'' + 5
        \<le> calculate_importance (''can you help?'' @ '' '' @ ''My Name'')"
proof -
  have h1: "lower ''My Name'' \<in> set [''my name'', ''i am'', ''i live'', ''my age'', ''my job'']"
    by code_simp
  have h2: "\<not> any_in [''my name'', ''i am'', ''i live'', ''my age'', ''my job''] (lower ''can you help?'')"
    by code_simp
  from importance_monotone [of "''My Name''" "''can you help?''" "'' ''"] h1 h2
  show ?thesis by blast
qed

section \<open>C3: the caches are not cleared by the calls that use them\<close>

lemma length_dict_set: "length d \<le> length (dict_set d k v)"
  by (induction d k v rule: dict_set.induct) auto

lemma keys_dict_set: "set (map fst d) \<subseteq> set (map fst (dict_set d k v))"
  by (induction d k v rule: dict_set.induct) auto

text \<open>
  \<open>get_ai_response\<close> and \<open>search_web\<close> never call \<open>_clear_old_cache\<close>: every key
  stays in its cache, whatever the clock and the number of entries are, and the time of the
  last clearing is never moved.
\<close>

lemma get_ai_response_keeps_cache:
  "set (map fst (response_cache s)) \<subseteq> set (map fst (response_cache (snd (get_ai_response e prompt ctx s))))
   \<and> length (response_cache s) \<le> length (response_cache (snd (get_ai_response e prompt ctx s)))
   \<and> search_cache (snd (get_ai_response e prompt ctx s)) = search_cache s
   \<and> last_cache_clear (snd (get_ai_response e prompt ctx s)) = last_cache_clear s"
  using keys_dict_set [of "response_cache s"] length_dict_set [of "response_cache s"]
  by (auto simp: get_ai_response_def Let_def split: option.splits sum.splits list.splits)

lemma search_web_keeps_cache:
  "set (map fst (search_cache s)) \<subseteq> set (map fst (search_cache (snd (search_web e query s))))
   \<and> length (search_cache s) \<le> length (search_cache (snd (search_web e query s)))
   \<and> response_cache (snd (search_web e query s)) = response_cache s
   \<and> last_cache_clear (snd (search_web e query s)) = last_cache_clear s"
  using keys_dict_set [of "search_cache s"] length_dict_set [of "search_cache s"]
  by (auto simp: search_web_def Let_def split: option.splits sum.splits list.splits)

text \<open>
  C3 does not hold of the code.  A new assistant answers one prompt at second 1 and another
  at second 4000, more than 3600 seconds after the last clearing: the first entry is still in
  the response cache and \<open>last_cache_clear\<close> is unchanged, although
  \<open>_clear_old_cache\<close>, had it been called at that moment, would have emptied the cache.
\<close>

theorem cache_not_cleared_after_ttl:
  "(let s0 = new_terminal_ai 0 no_draws;
        (r1, s1) = get_ai_response (sample_env ''Paris.'' ''found'' 1) ''Capital of France'' [] s0;
        (r2, s2) = get_ai_response (sample_env ''Rome.'' ''found'' 4000) ''Capital of Italy'' [] s1
    in map fst (response_cache s2) = [''capital of france:'', ''capital of italy:'']
       \<and> last_cache_clear s2 = 0
       \<and> response_cache (clear_old_cache 4000 s1) = [])"
  by code_simp

section \<open>C4: the bound of 100 on the long-term conversations\<close>

text \<open>
  \<open>extract_user_info\<close> takes the first word after \<open>my name is\<close> without testing that
  there is one, so an input that ends with these words raises IndexError.  In
  \<open>add_to_long_term_memory\<close> this happens after the new entry has been appended and before
  the list is cut to 100.
\<close>

lemma extract_user_info_my_name_is:
  "extract_user_info ''my name is'' ui = Inl IndexError"
proof -
  have a: "contains (lower ''my name is'') ''my name is''" by code_simp
  have b: "split_ws (strip (last_piece (lower ''my name is'') ''my name is'')) = []" by code_simp
  show ?thesis
    unfolding extract_user_info_def Let_def by (simp only: a b if_True list.case sum.case)
qed

lemma add_to_long_term_memory_my_name_is:
  "add_to_long_term_memory ''my name is'' resp now m =
     (Some IndexError,
      m\<lparr>conversations := conversations m
           @ [\<lparr>m_user_input = ''my name is'', m_ai_response = resp, m_timestamp = now,
               importance = Some (calculate_importance ''my name is'')\<rparr>]\<rparr>)"
  by (simp add: add_to_long_term_memory_def Let_def extract_user_info_my_name_is)

lemma add_all_my_name_is:
  "length (conversations (add_all (replicate n (''my name is'', resp, now)) m))
     = length (conversations m) + n"
  by (induction n arbitrary: m) (simp_all add: add_to_long_term_memory_my_name_is)

text \<open>
  C4 does not hold of the code: 101 inserts of the input \<open>my name is\<close> into an empty
  memory leave 101 conversations, each insert raising IndexError after its append.
\<close>

theorem long_term_memory_exceeds_100:
  "length (conversations
     (add_all (replicate 101 (''my name is'', ''Nice to meet you!'', ''2025-05-01T10:00:00''))
        empty_long_term_memory)) = 101
   \<and> fst (add_to_long_term_memory ''my name is'' ''Nice to meet you!'' ''2025-05-01T10:00:00''
            empty_long_term_memory) = Some IndexError"
  by (simp add: add_all_my_name_is add_to_long_term_memory_my_name_is empty_long_term_memory_def)

text \<open>
  An insert that returns normally does what C4 says: at most 100 entries remain, they are
  the first 100 of the stable descending sort by importance, and no entry that is dropped
  is more important than one that is kept.
\<close>

lemma add_to_long_term_memory_bounded:
  assumes "add_to_long_term_memory inp resp now m = (None, m')"
  shows "length (conversations m') \<le> 100"
  using assms
  by (auto simp: add_to_long_term_memory_def Let_def split: sum.splits if_splits)

lemma sorted_rev_of_negated:
  "sorted (map uminus (ys :: int list)) \<Longrightarrow> sorted (rev ys)"
  by (induction ys) (auto simp: sorted_append)

lemma sorted_by_importance_spec:
  "mset (sorted_by_importance xs) = mset xs
   \<and> sorted (rev (map importance_key (sorted_by_importance xs)))
   \<and> (\<forall>k. filter (\<lambda>x. importance_key x = k) (sorted_by_importance xs)
            = filter (\<lambda>x. importance_key x = k) xs)"
proof (intro conjI allI)
  show "mset (sorted_by_importance xs) = mset xs"
    by (simp add: sorted_by_importance_def)
  have "sorted (map (\<lambda>x. - importance_key x) (sorted_by_importance xs))"
    by (simp add: sorted_by_importance_def)
  then have "sorted (map uminus (map importance_key (sorted_by_importance xs)))"
    by (simp add: comp_def)
  then show "sorted (rev (map importance_key (sorted_by_importance xs)))"
    by (rule sorted_rev_of_negated)
next
  fix k
  have "filter (\<lambda>x. - importance_key x = - k) (sort_key (\<lambda>x. - importance_key x) xs)
        = filter (\<lambda>x. - importance_key x = - k) xs"
    by (rule sort_key_stable)
  then show "filter (\<lambda>x. importance_key x = k) (sorted_by_importance xs)
            = filter (\<lambda>x. importance_key x = k) xs"
    by (simp add: sorted_by_importance_def)
qed


lemma sorted_desc_take_drop:
  assumes "sorted (rev (map f xs))"
  shows "\<forall>x \<in> set (take n xs). \<forall>y \<in> set (drop n xs). f y \<le> (f x :: int)"
proof -
  have "sorted (rev (map f (take n xs @ drop n xs)))"
    using assms by simp
  then have "sorted (rev (map f (drop n xs)) @ rev (map f (take n xs)))"
    by (simp only: map_append rev_append)
  then show ?thesis
    by (auto simp: sorted_append)
qed

lemma add_to_long_term_memory_keeps_top_100:
  assumes "add_to_long_term_memory inp resp now m = (None, m')"
    and "100 \<le> length (conversations m)"
  shows "conversations m' =
           take 100 (sorted_by_importance (conversations m
             @ [\<lparr>m_user_input = inp, m_ai_response = resp, m_timestamp = now,
                 importance = Some (calculate_importance inp)\<rparr>]))
         \<and> (\<forall>x \<in> set (conversations m').
              \<forall>y \<in> set (drop 100 (sorted_by_importance (conversations m
                     @ [\<lparr>m_user_input = inp, m_ai_response = resp, m_timestamp = now,
                         importance = Some (calculate_importance inp)\<rparr>]))).
                importance_key y \<le> importance_key x)"
proof -
  define full where "full = conversations m
             @ [\<lparr>m_user_input = inp, m_ai_response = resp, m_timestamp = now,
                 importance = Some (calculate_importance inp)\<rparr>]"
  have eq: "conversations m' = take 100 (sorted_by_importance full)"
    using assms unfolding full_def
    by (auto simp: add_to_long_term_memory_def Let_def split: sum.splits if_splits)
  have "sorted (rev (map importance_key (sorted_by_importance full)))"
    using sorted_by_importance_spec [of full] by blast
  from sorted_desc_take_drop [OF this, of 100] eq
  show ?thesis unfolding full_def by simp
qed

section \<open>C2: smart\_response always returns a text\<close>

subsection \<open>Texts that are not blank\<close>

lemma nonblank_append [simp]: "nonblank (a @ b) = (nonblank a \<or> nonblank b)"
  by (auto simp: nonblank_def)

lemma nonblank_Cons: "nonblank (c # cs) = (\<not> isspace c \<or> nonblank cs)"
  by (auto simp: nonblank_def)

lemma nonblank_Nil [simp]: "\<not> nonblank []"
  by (simp add: nonblank_def)

lemma nonblank_dropWhile [simp]: "nonblank (dropWhile isspace s) = nonblank s"
  by (induction s) (auto simp: nonblank_Cons)

lemma nonblank_rev [simp]: "nonblank (rev s) = nonblank s"
  by (simp add: nonblank_def)

lemma nonblank_strip [simp]: "nonblank (strip s) = nonblank s"
  by (simp add: strip_def rstrip_def lstrip_def)

lemma dropWhile_nonempty_nonblank: "dropWhile isspace s \<noteq> [] \<Longrightarrow> nonblank s"
  by (induction s) (auto simp: nonblank_Cons split: if_splits)

lemma strip_nonempty_nonblank: "strip s \<noteq> [] \<Longrightarrow> nonblank s"
proof -
  assume "strip s \<noteq> []"
  then have "dropWhile isspace (rev (dropWhile isspace s)) \<noteq> []"
    by (simp add: strip_def rstrip_def lstrip_def)
  then have "nonblank (rev (dropWhile isspace s))" by (rule dropWhile_nonempty_nonblank)
  then show ?thesis by simp
qed

lemma nonblank_replace_aux:
  "nonblank s \<Longrightarrow> nonblank new \<Longrightarrow> nonblank (replace_aux old new s)"
proof (induction old new s rule: replace_aux.induct)
  case (1 old new)
  then show ?case by simp
next
  case (2 old new c cs)
  show ?case
  proof (cases "old \<noteq> [] \<and> prefix old (c # cs)")
    case True
    with "2.prems" show ?thesis by simp
  next
    case False
    with "2.prems" "2.IH"(2) show ?thesis
      by (auto simp: nonblank_Cons)
  qed
qed

lemma nonblank_replace:
  "nonblank s \<Longrightarrow> nonblank new \<Longrightarrow> nonblank (replace s old new)"
  by (simp add: replace_def nonblank_replace_aux)

lemma max_from_in_set: "max_from f x xs \<in> set (x # xs)"
  by (induction xs arbitrary: x) (auto split: if_splits)

lemma random_choice_in_set:
  "random_choice xs g = (Inr x, g') \<Longrightarrow> x \<in> set xs"
  by (auto simp: random_choice_def split: if_splits list.splits)

lemma fallback_table_nonblank:
  "list_all (\<lambda>(key, response). nonblank response) fallback_responses"
  unfolding nonblank_def by code_simp

lemma nonblank_get_fallback_response: "nonblank (get_fallback_response prompt)"
proof -
  define hits where
    "hits = filter (\<lambda>(key, response). contains (strip (lower prompt)) key) fallback_responses"
  show ?thesis
  proof (cases hits)
    case Nil
    have "nonblank ''I'm having trouble processing that right now. Could you please try again or rephrase your question?''"
      by (simp add: nonblank_Cons isspace_def)
    with Nil show ?thesis
      by (simp add: get_fallback_response_def Let_def hits_def [symmetric])
  next
    case (Cons kr rest)
    obtain key response where kr: "kr = (key, response)" by (cases kr)
    have "kr \<in> set hits" using Cons by simp
    then have "kr \<in> set fallback_responses" by (simp add: hits_def)
    with fallback_table_nonblank kr have "nonblank response"
      by (auto simp: list_all_iff)
    with Cons kr show ?thesis
      by (simp add: get_fallback_response_def Let_def hits_def [symmetric])
  qed
qed

subsection \<open>The personality keeps a text that is not blank\<close>

lemma nonblank_add_humor:
  assumes "add_humor response g = (Inr r, g')" "nonblank response"
  shows "nonblank r"
proof -
  obtain x g1 where rr: "random_random g = (x, g1)" by (cases "random_random g")
  have nb: "nonblank ''I reckon''" "nonblank ''But hey''"
    by (simp_all add: nonblank_Cons isspace_def)
  from assms(1) obtain response1 where
    "r = replace (replace response1 ''I think'' ''I reckon'') ''However'' ''But hey''"
    and "response1 = response \<or> (\<exists>joke. response1 = response @ joke)"
    unfolding add_humor_def Let_def rr
    by (auto split: if_splits prod.splits sum.splits)
  with assms(2) nb show ?thesis
    by (auto intro!: nonblank_replace)
qed

lemma nonblank_make_professional:
  assumes "make_professional response g = (Inr r, g')" "nonblank response"
  shows "nonblank r"
proof -
  obtain x g1 where rr: "random_random g = (x, g1)" by (cases "random_random g")
  define response3 where "response3 =
     replace (replace (replace response ''I think'' ''I believe'') ''pretty good'' ''quite effective'')
       ''really'' ''particularly''"
  have nb: "nonblank ''I believe''" "nonblank ''quite effective''" "nonblank ''particularly''"
    by (simp_all add: nonblank_Cons isspace_def)
  with assms(2) have n3: "nonblank response3"
    unfolding response3_def by (intro nonblank_replace)
  from assms(1) have "r = response3 \<or> (\<exists>starter. r = starter @ lower response3)"
    unfolding make_professional_def Let_def rr response3_def [symmetric]
    by (auto split: if_splits prod.splits sum.splits)
  with n3 show ?thesis by auto
qed

lemma nonblank_add_energy:
  assumes "add_energy response g = (Inr r, g')" "nonblank response"
  shows "nonblank r"
proof -
  obtain x g1 where rr: "random_random g = (x, g1)" by (cases "random_random g")
  define response1 where "response1 =
     (if \<not> (endswith response ''!'' \<or> endswith response ''?'' \<or> endswith response ''.'')
      then response @ ''!'' else response)"
  define response4 where "response4 =
     replace (replace (replace response1 ''good'' ''AWESOME'') ''yes'' ''ABSOLUTELY YES'')
       ''I can'' ''I'd LOVE to''"
  have nb: "nonblank ''AWESOME''" "nonblank ''ABSOLUTELY YES''" "nonblank ''I'd LOVE to''"
    by (simp_all add: nonblank_Cons isspace_def)
  from assms(2) have "nonblank response1" by (simp add: response1_def)
  with nb have n4: "nonblank response4"
    unfolding response4_def by (intro nonblank_replace)
  from assms(1) have "r = response4 \<or> (\<exists>addition. r = response4 @ addition)"
    unfolding add_energy_def Let_def rr response1_def [symmetric] response4_def [symmetric]
    by (auto split: if_splits prod.splits sum.splits)
  with n4 show ?thesis by auto
qed

lemma nonblank_add_wisdom:
  assumes "add_wisdom response g = (Inr r, g')" "nonblank response"
  shows "nonblank r"
proof -
  obtain x g1 where rr: "random_random g = (x, g1)" by (cases "random_random g")
  show ?thesis
    using assms unfolding add_wisdom_def Let_def rr
    by (auto split: if_splits prod.splits sum.splits)
qed

lemma nonblank_apply_personality:
  assumes "apply_personality_to_response ps response g = (Inr r, g')" "nonblank response"
  shows "nonblank r"
proof -
  obtain x g1 where rr: "random_random g = (x, g1)" by (cases "random_random g")
  from assms(1) obtain p where p: "lookup_personality ps = Inr p"
    unfolding apply_personality_to_response_def by (auto split: sum.splits)
  from assms(1) obtain response1 g2 where
    first: "response1 = response \<or> (\<exists>pattern. response1 = pattern @ '' '' @ response)"
    and rest: "(if current_personality ps = ''funny'' then add_humor response1 g2
           else if current_personality ps = ''professional'' then make_professional response1 g2
           else if current_personality ps = ''energetic'' then add_energy response1 g2
           else if current_personality ps = ''wise'' then add_wisdom response1 g2
           else (Inr response1, g2)) = (Inr r, g')"
    unfolding apply_personality_to_response_def p Let_def rr
    by (auto simp del: list.inject split: if_splits prod.splits sum.splits)
  from first assms(2) have "nonblank response1" by (auto simp: nonblank_Cons)
  with rest show ?thesis
    by (auto split: if_splits
        dest: nonblank_add_humor nonblank_make_professional nonblank_add_energy nonblank_add_wisdom)
qed

subsection \<open>The steps of the enhancement pipeline\<close>

lemma nonblank_check_logical_consistency:
  "nonblank response \<Longrightarrow> nonblank (check_logical_consistency query response)"
  by (simp add: check_logical_consistency_def Let_def nonblank_Cons isspace_def)

lemma nonblank_add_practical_context:
  "nonblank response \<Longrightarrow> nonblank (add_practical_context query response)"
  by (simp add: add_practical_context_def Let_def nonblank_Cons isspace_def)

lemma nonblank_apply_safety_filter:
  "nonblank response \<Longrightarrow> nonblank (apply_safety_filter response)"
  by (simp add: apply_safety_filter_def nonblank_Cons isspace_def)

lemma nonblank_add_contextual_awareness:
  "nonblank response \<Longrightarrow> nonblank (add_contextual_awareness h m query response)"
  by (simp add: add_contextual_awareness_def Let_def nonblank_Cons isspace_def)

lemma nonblank_enhance_with_common_sense:
  "nonblank response \<Longrightarrow>
   nonblank (fst (enhance_with_common_sense h m now query response cs))"
  by (simp add: enhance_with_common_sense_def Let_def check_contradictions_def
      apply_common_sense_def nonblank_add_contextual_awareness nonblank_apply_safety_filter
      nonblank_add_practical_context nonblank_check_logical_consistency)

lemma enhance_emotion_result:
  assumes "enhance_emotion query raw s = (res, s1)"
  shows "response_cache s1 = response_cache s \<and> learning_system s1 = learning_system s
         \<and> (\<forall>raw1. res = Inr raw1 \<longrightarrow> nonblank raw \<longrightarrow> nonblank raw1)"
  using assms
  by (auto simp: enhance_emotion_def nonblank_Cons
      split: option.splits sum.splits prod.splits if_splits)

lemma enhance_personality_result:
  assumes "enhance_personality raw s = (res, s1)"
  shows "response_cache s1 = response_cache s \<and> learning_system s1 = learning_system s
         \<and> (\<forall>r. res = Inr r \<longrightarrow> nonblank raw \<longrightarrow> nonblank r)"
  using assms
  by (auto simp: enhance_personality_def split: option.splits sum.splits prod.splits
      dest: nonblank_apply_personality)

lemma enhance_common_sense_result:
  assumes "enhance_common_sense e query response s = (res, s1)"
  shows "response_cache s1 = response_cache s \<and> learning_system s1 = learning_system s
         \<and> (\<forall>r. res = Inr r \<longrightarrow> nonblank response \<longrightarrow> nonblank r)"
proof (cases "needs_common_sense_check query response")
  case False
  with assms show ?thesis by (auto simp: enhance_common_sense_def)
next
  case True
  show ?thesis
  proof (cases "common_sense s")
    case None
    with True assms show ?thesis by (auto simp: enhance_common_sense_def)
  next
    case (Some cs)
    obtain r1 cs1 where
      c: "enhance_with_common_sense (now_hour e) (now_month e) (now_iso e) query response cs = (r1, cs1)"
      by (cases "enhance_with_common_sense (now_hour e) (now_month e) (now_iso e) query response cs")
    from nonblank_enhance_with_common_sense
        [of response "now_hour e" "now_month e" "now_iso e" query cs] c
    have "nonblank response \<Longrightarrow> nonblank r1" by simp
    with True Some c assms show ?thesis by (auto simp: enhance_common_sense_def)
  qed
qed

lemma enhance_memory_result:
  "enhance_memory query response s = Inr r \<Longrightarrow> nonblank response \<Longrightarrow> nonblank r"
  by (auto simp: enhance_memory_def nonblank_Cons isspace_def split: if_splits option.splits)

lemma nonblank_personalized:
  assumes "get_personalized_response ls query = Inr (Some p)"
    and "list_all (\<lambda>(key, entries). list_all (\<lambda>entry. nonblank (le_response entry)) entries)
           (learned_knowledge ls)"
  shows "nonblank p"
proof (cases "map_of (learned_knowledge ls) (take 50 (lower query))")
  case (Some entries)
  then have mem: "(take 50 (lower query), entries) \<in> set (learned_knowledge ls)"
    by (rule map_of_SomeD)
  with assms(2) have all: "\<forall>entry \<in> set entries. nonblank (le_response entry)"
    by (auto simp: list_all_iff)
  from assms(1) Some obtain x rest where
    "entries = x # rest"
    "p = le_response (max_from (\<lambda>x. case le_success_count x of None \<Rightarrow> 0 | Some n \<Rightarrow> n) x rest)"
    by (auto simp: get_personalized_response_def Let_def py_max_def split: list.splits)
  with all max_from_in_set [of "\<lambda>x. case le_success_count x of None \<Rightarrow> 0 | Some n \<Rightarrow> n" x rest]
  show ?thesis by auto
next
  case None
  with assms(1) show ?thesis
    by (auto simp: get_personalized_response_def Let_def nonblank_Cons isspace_def
        split: option.splits list.splits)
qed

lemma enhance_learning_result:
  assumes "enhance_learning query response s = Inr r" "nonblank response" "stored_ok s"
  shows "nonblank r"
proof -
  from assms(1) obtain ls where ls: "learning_system s = Some ls"
    by (auto simp: enhance_learning_def split: option.splits)
  with assms(3) have ok: "list_all (\<lambda>(key, entries).
        list_all (\<lambda>entry. nonblank (le_response entry)) entries) (learned_knowledge ls)"
    by (simp add: stored_ok_def)
  from assms(1) ls have "r = response
      \<or> (\<exists>p. get_personalized_response ls query = Inr (Some p) \<and> r = p)"
    by (auto simp: enhance_learning_def split: sum.splits option.splits if_splits)
  with assms(2) nonblank_personalized [OF _ ok] show ?thesis by auto
qed

end
